theory Spec2Isabelle
  imports Main
begin



section \<open>Python values, exceptions and strings\<close>

text \<open>
  The authentication manager of \<^verbatim>\<open>gcphcp/auth/google_auth.py\<close> is embedded as
  state-passing functions. Attribute values of credential objects and the data read
  from the credential file are dynamically typed in the source, so they are values
  of \<open>pyval\<close>: the Python values that JSON can carry (\<open>PyNone\<close> is \<^verbatim>\<open>None\<close>).
  A \<open>char\<close> stands for one code point of a Python \<^verbatim>\<open>str\<close>; the texts the manager
  handles (tokens, tool output, file paths) are Latin-1.
\<close>

datatype pyval =
    PyNone
  | PyBool bool
  | PyInt int
  | PyStr string
  | PyList "pyval list"
  | PyDict "(string \<times> pyval) list"

text \<open>Python truthiness, as \<^verbatim>\<open>if x:\<close> and \<^verbatim>\<open>not x\<close> test it.\<close>

fun truthy :: "pyval \<Rightarrow> bool" where
  "truthy PyNone = False"
| "truthy (PyBool b) = b"
| "truthy (PyInt i) = (i \<noteq> 0)"
| "truthy (PyStr s) = (s \<noteq> [])"
| "truthy (PyList xs) = (xs \<noteq> [])"
| "truthy (PyDict kvs) = (kvs \<noteq> [])"

text \<open>
  Modelled from the spec: the module \<^verbatim>\<open>gcphcp/auth/exceptions.py\<close> is not part of the
  sources. The spec names three error kinds: \<^verbatim>\<open>AuthenticationError\<close> (general, possibly
  wrapping a cause), \<^verbatim>\<open>TokenRefreshError\<close> (its refresh-specific subtype) and
  \<^verbatim>\<open>CredentialsNotFoundError\<close> (the more specific error of the OAuth flow runner).
  The other classes are the library exceptions the handlers of the source name;
  \<open>OtherError\<close> is any further subclass of \<^verbatim>\<open>Exception\<close>, by its class name.
  Only exceptions derived from \<^verbatim>\<open>Exception\<close> are modelled.
\<close>

datatype exc_class =
    AuthenticationError
  | TokenRefreshError
  | CredentialsNotFoundError
  | RefreshError
  | DefaultCredentialsError
  | TimeoutExpired
  | FileNotFoundError
  | JSONDecodeError
  | KeyError
  | AttributeError
  | OtherError string

text \<open>An exception object: its class, \<^verbatim>\<open>str(e)\<close> and the \<^verbatim>\<open>cause\<close> it was built with.\<close>

datatype exc = Exc (cls: exc_class) (msg: string) (cause: "exc option")

fun is_subclass :: "exc_class \<Rightarrow> exc_class \<Rightarrow> bool" where
  "is_subclass c d =
     (c = d \<or> (d = AuthenticationError \<and> (c = TokenRefreshError \<or> c = CredentialsNotFoundError)))"

text \<open>\<^verbatim>\<open>except (C1, ..., Cn)\<close> catches \<open>e\<close> when \<open>isinstance e [C1, ..., Cn]\<close>.\<close>

definition isinstance :: "exc \<Rightarrow> exc_class list \<Rightarrow> bool" where
  "isinstance e cs = list_ex (is_subclass (cls e)) cs"

text \<open>\<^verbatim>\<open>str.isspace\<close>, \<^verbatim>\<open>str.strip\<close>, \<^verbatim>\<open>str.lower\<close>, \<^verbatim>\<open>sub in s\<close>, \<^verbatim>\<open>str.split\<close> and
  \<^verbatim>\<open>str.join\<close> on Latin-1 text.\<close>

definition is_space :: "char \<Rightarrow> bool" where
  "is_space c =
     (let n = (of_char c :: nat)
      in (9 \<le> n \<and> n \<le> 13) \<or> (28 \<le> n \<and> n \<le> 32) \<or> n = 133 \<or> n = 160)"

definition strip :: "string \<Rightarrow> string" where
  "strip s = rev (dropWhile is_space (rev (dropWhile is_space s)))"

definition lower_char :: "char \<Rightarrow> char" where
  "lower_char c =
     (let n = (of_char c :: nat)
      in if (65 \<le> n \<and> n \<le> 90) \<or> (192 \<le> n \<and> n \<le> 222 \<and> n \<noteq> 215)
         then char_of (n + 32) else c)"

definition lower :: "string \<Rightarrow> string" where
  "lower s = map lower_char s"

fun starts_with :: "string \<Rightarrow> string \<Rightarrow> bool" where
  "starts_with [] s = True"
| "starts_with (p # ps) [] = False"
| "starts_with (p # ps) (c # cs) = (p = c \<and> starts_with ps cs)"

fun contains :: "string \<Rightarrow> string \<Rightarrow> bool" where
  "contains sub [] = (sub = [])"
| "contains sub (c # cs) = (starts_with sub (c # cs) \<or> contains sub cs)"

fun split_on :: "char \<Rightarrow> string \<Rightarrow> string list" where
  "split_on sep [] = [[]]"
| "split_on sep (c # cs) =
     (if c = sep then [] # split_on sep cs
      else (case split_on sep cs of
              [] \<Rightarrow> [[c]]
            | part # parts \<Rightarrow> (c # part) # parts))"

fun join :: "string \<Rightarrow> string list \<Rightarrow> string" where
  "join sep [] = []"
| "join sep [x] = x"
| "join sep (x # y # ys) = x @ sep @ join sep (y # ys)"

section \<open>The manager, the world around it and the libraries it calls\<close>

text \<open>
  A credentials object (\<^verbatim>\<open>google.auth.credentials.Credentials\<close> and its subclasses).
  The source reads most attributes with \<^verbatim>\<open>getattr(c, name, default)\<close> or behind
  \<^verbatim>\<open>hasattr\<close>, since ambient credentials need not have them: such an attribute is
  an option, \<open>None\<close> when the object has no attribute of that name. \<open>expired\<close> is the
  value of the property \<^verbatim>\<open>c.expired\<close>.
\<close>

record creds =
  token :: pyval
  refresh_token :: "pyval option"
  id_token :: "pyval option"
  client_id :: "pyval option"
  client_secret :: "pyval option"
  token_uri :: "pyval option"
  scopes :: "pyval option"
  expired :: bool

definition getattr :: "'a option \<Rightarrow> 'a \<Rightarrow> 'a" where
  "getattr a d = (case a of None \<Rightarrow> d | Some v \<Rightarrow> v)"

text \<open>\<^verbatim>\<open>subprocess.CompletedProcess\<close> with captured text output.\<close>

record completed_process =
  returncode :: int
  stdout :: string
  stderr :: string

text \<open>An \<^verbatim>\<open>InstalledAppFlow\<close>: what its \<^verbatim>\<open>run_local_server\<close> call comes to.\<close>

datatype flow = Flow (run_local_server: "exc + creds")

datatype level = DEBUG | INFO | WARNING

text \<open>What the manager does to the outside, in order: log records and library calls.\<close>

datatype event =
    Log level string
  | Run "string list" nat
  | Exists string
  | OpenRead string
  | Mkdir string
  | OpenWrite string
  | Chmod string nat
  | GoogleAuthDefault
  | FromClientSecretsFile string
  | RunLocalServer
  | Refresh

record disk_file =
  content :: string
  mode :: nat

text \<open>
  The state the methods read and write: the fields of the \<^verbatim>\<open>GoogleCloudAuth\<close> object
  (\<^verbatim>\<open>_credentials\<close> and \<^verbatim>\<open>_user_email\<close> without their underscore), the regular files
  on disk by path, and the trace of events so far.
\<close>

record state =
  credentials_path :: string
  client_secrets_path :: "string option"
  audience :: "string option"
  credentials :: "creds option"
  user_email :: pyval
  files :: "string \<Rightarrow> disk_file option"
  trace :: "event list"

text \<open>
  The outcome of every call that leaves the module: none of these functions is code
  of the repository, so each is a parameter, and a theorem holds for whatever they
  return. \<open>run cmd timeout\<close> is \<^verbatim>\<open>subprocess.run(cmd, capture_output=True, text=True,
  timeout=timeout)\<close>. The \<open>_error\<close> fields say whether the operating system refuses a
  file operation on a path (\<open>None\<close>: it does not). \<open>create_mode\<close> is the mode of a
  newly created file (\<^verbatim>\<open>0o666\<close> without the bits of the umask). \<open>json_load\<close> is
  \<^verbatim>\<open>json.load\<close> applied to the text of a file, \<open>json_dump\<close> the text that
  \<^verbatim>\<open>json.dump(obj, f, indent=2)\<close> writes.
\<close>

record env =
  run :: "string list \<Rightarrow> nat \<Rightarrow> exc + completed_process"
  open_read_error :: "string \<Rightarrow> exc option"
  mkdir_error :: "string \<Rightarrow> exc option"
  open_write_error :: "string \<Rightarrow> exc option"
  chmod_error :: "string \<Rightarrow> exc option"
  create_mode :: nat
  json_load :: "string \<Rightarrow> exc + pyval"
  json_dump :: "pyval \<Rightarrow> string"
  urlsafe_b64decode :: "string \<Rightarrow> exc + string"
  decode_utf8 :: "string \<Rightarrow> exc + string"
  json_loads :: "string \<Rightarrow> exc + pyval"
  google_auth_default :: "pyval \<Rightarrow> exc + creds"
  from_client_secrets_file :: "string \<Rightarrow> pyval \<Rightarrow> exc + flow"
  refresh :: "creds \<Rightarrow> exc + creds"

definition emit :: "event \<Rightarrow> state \<Rightarrow> state" where
  "emit ev s = s\<lparr>trace := trace s @ [ev]\<rparr>"

definition log :: "level \<Rightarrow> string \<Rightarrow> state \<Rightarrow> state" where
  "log l m s = emit (Log l m) s"

definition REQUIRED_SCOPES :: pyval where
  "REQUIRED_SCOPES =
     PyList [PyStr ''openid'', PyStr ''email'', PyStr ''profile'',
             PyStr ''https://www.googleapis.com/auth/cloud-platform'']"

section \<open>External-tool token source\<close>

definition subprocess_run ::
  "env \<Rightarrow> string list \<Rightarrow> nat \<Rightarrow> state \<Rightarrow> (exc + completed_process) \<times> state" where
  "subprocess_run e cmd timeout s = (run e cmd timeout, emit (Run cmd timeout) s)"

definition token_cmd :: "string list" where
  "token_cmd = [''gcloud'', ''auth'', ''print-identity-token'']"

definition email_cmd :: "string list" where
  "email_cmd = [''gcloud'', ''config'', ''get-value'', ''account'']"

text \<open>\<^verbatim>\<open>result.stderr.strip() or "Failed to get identity token"\<close>\<close>

definition error_msg_of :: "completed_process \<Rightarrow> string" where
  "error_msg_of result =
     (if strip (stderr result) \<noteq> [] then strip (stderr result)
      else ''Failed to get identity token'')"

text \<open>The test of lines 325 to 328 on the lower-cased error message.\<close>

definition not_logged_in :: "string \<Rightarrow> bool" where
  "not_logged_in error_msg =
     (contains ''not logged in'' (lower error_msg) \<or> contains ''no active account'' (lower error_msg))"

definition not_authenticated_msg :: string where
  "not_authenticated_msg =
     ''Not authenticated with gcloud. Please run 'gcloud auth login' '' @
     ''first, or use 'gcphcp auth login' for OAuth flow.''"

text \<open>The \<^verbatim>\<open>try\<close> block of \<^verbatim>\<open>_get_identity_token_without_audience\<close> (lines 312 to 357).\<close>

definition get_identity_token_body :: "env \<Rightarrow> state \<Rightarrow> (exc + pyval \<times> pyval) \<times> state" where
  "get_identity_token_body e s =
     (let s1 = log DEBUG (''Running command: '' @ join '' '' token_cmd) s;
          (r, s2) = subprocess_run e token_cmd 30 s1
      in case r of
           Inl x \<Rightarrow> (Inl x, s2)
         | Inr result \<Rightarrow>
             if returncode result \<noteq> 0 then
               (if not_logged_in (error_msg_of result)
                then (Inl (Exc AuthenticationError not_authenticated_msg None), s2)
                else (Inl (Exc AuthenticationError
                        (''gcloud auth print-identity-token failed: '' @ error_msg_of result) None), s2))
             else
               (let identity_token = strip (stdout result)
                in if identity_token = []
                   then (Inl (Exc AuthenticationError ''gcloud returned empty identity token'' None), s2)
                   else
                     (let (r2, s3) = subprocess_run e email_cmd 10 s2
                      in case r2 of
                           Inl x \<Rightarrow> (Inl x, s3)
                         | Inr email_result \<Rightarrow>
                             (let email =
                                    (if returncode email_result = 0 then strip (stdout email_result)
                                     else ''unknown@example.com'');
                                  s4 = log DEBUG ''Successfully obtained identity token without audience'' s3
                              in (Inr (PyStr identity_token, PyStr email), s4)))))"

text \<open>The method with its three handlers (lines 359 to 366), tried in the source's order.\<close>

definition get_identity_token_without_audience ::
  "env \<Rightarrow> state \<Rightarrow> (exc + pyval \<times> pyval) \<times> state" where
  "get_identity_token_without_audience e s =
     (case get_identity_token_body e s of
        (Inr r, s') \<Rightarrow> (Inr r, s')
      | (Inl x, s') \<Rightarrow>
          if isinstance x [TimeoutExpired]
          then (Inl (Exc AuthenticationError ''Timeout while calling gcloud command'' None), s')
          else if isinstance x [FileNotFoundError]
          then (Inl (Exc AuthenticationError
                  ''gcloud command not found. Install Google Cloud SDK or use OAuth flow.'' None), s')
          else (Inl (Exc AuthenticationError (''Failed to get identity token: '' @ msg x) (Some x)), s'))"

section \<open>Token extractor\<close>

definition quote :: "string \<Rightarrow> string" where
  "quote s = CHR 0x27 # s @ [CHR 0x27]"

fun type_name :: "pyval \<Rightarrow> string" where
  "type_name PyNone = ''NoneType''"
| "type_name (PyBool b) = ''bool''"
| "type_name (PyInt i) = ''int''"
| "type_name (PyStr s) = ''str''"
| "type_name (PyList xs) = ''list''"
| "type_name (PyDict kvs) = ''dict''"

text \<open>What \<^verbatim>\<open>v.name\<close> raises when \<open>v\<close> has no attribute \<open>name\<close>.\<close>

definition attribute_error :: "pyval \<Rightarrow> string \<Rightarrow> exc" where
  "attribute_error v name =
     Exc AttributeError (quote (type_name v) @ '' object has no attribute '' @ quote name) None"

text \<open>\<^verbatim>\<open>d.get(k, dflt)\<close> on the items of a dict.\<close>

definition dict_get :: "(string \<times> pyval) list \<Rightarrow> string \<Rightarrow> pyval \<Rightarrow> pyval" where
  "dict_get kvs k dflt = (case map_of kvs k of None \<Rightarrow> dflt | Some v \<Rightarrow> v)"

text \<open>Lines 229 to 231: the padding of the payload segment.\<close>

definition pad_payload :: "string \<Rightarrow> string" where
  "pad_payload payload =
     (let padding = length payload mod 4
      in if padding \<noteq> 0 then payload @ replicate (4 - padding) CHR ''='' else payload)"

text \<open>
  The \<^verbatim>\<open>try\<close> block of \<^verbatim>\<open>_extract_user_email\<close> (lines 219 to 235) on the identity token
  \<open>idt\<close>. A token that is not a \<^verbatim>\<open>str\<close> has no \<^verbatim>\<open>split\<close>, a payload that is not a
  dict has no \<^verbatim>\<open>get\<close>.
\<close>

definition extract_email_body :: "env \<Rightarrow> pyval \<Rightarrow> state \<Rightarrow> (exc + unit) \<times> state" where
  "extract_email_body e idt s =
     (case idt of
        PyStr t \<Rightarrow>
          (let parts = split_on CHR ''.'' t
           in if length parts \<ge> 2 then
                (let payload = pad_payload (parts ! 1)
                 in case urlsafe_b64decode e payload of
                      Inl x \<Rightarrow> (Inl x, s)
                    | Inr decoded \<Rightarrow>
                        (case decode_utf8 e decoded of
                           Inl x \<Rightarrow> (Inl x, s)
                         | Inr txt \<Rightarrow>
                             (case json_loads e txt of
                                Inl x \<Rightarrow> (Inl x, s)
                              | Inr (PyDict kvs) \<Rightarrow>
                                  (Inr (), s\<lparr>user_email := dict_get kvs ''email'' PyNone\<rparr>)
                              | Inr token_data \<Rightarrow> (Inl (attribute_error token_data ''get''), s))))
              else (Inr (), s))
      | _ \<Rightarrow> (Inl (attribute_error idt ''split''), s))"

text \<open>\<^verbatim>\<open>_extract_user_email\<close>: the cached email first, then the identity token; whatever
  the \<^verbatim>\<open>try\<close> block raises is logged and dropped.\<close>

definition extract_user_email :: "env \<Rightarrow> state \<Rightarrow> (exc + pyval) \<times> state" where
  "extract_user_email e s =
     (if truthy (user_email s) then (Inr (user_email s), s)
      else
        (let s1 =
           (case credentials s of
              None \<Rightarrow> s
            | Some c \<Rightarrow>
                (case id_token c of
                   None \<Rightarrow> s
                 | Some idt \<Rightarrow>
                     if truthy idt then
                       (case extract_email_body e idt s of
                          (Inr u, s') \<Rightarrow> s'
                        | (Inl x, s') \<Rightarrow>
                            log WARNING (''Failed to extract email from ID token: '' @ msg x) s')
                     else s))
         in (Inr (user_email s1), s1)))"

section \<open>Credential store\<close>

text \<open>\<^verbatim>\<open>open(path, "r")\<close> and reading the text of the file.\<close>

definition open_read :: "env \<Rightarrow> string \<Rightarrow> state \<Rightarrow> (exc + string) \<times> state" where
  "open_read e p s =
     (let s1 = emit (OpenRead p) s
      in case open_read_error e p of
           Some x \<Rightarrow> (Inl x, s1)
         | None \<Rightarrow>
             (case files s p of
                None \<Rightarrow>
                  (Inl (Exc FileNotFoundError
                     (''[Errno 2] No such file or directory: '' @ quote p) None), s1)
              | Some f \<Rightarrow> (Inr (content f), s1)))"

text \<open>
  \<^verbatim>\<open>google.oauth2.credentials.Credentials(token=..., ...)\<close> as line 124 calls it: every
  attribute is set, and with no \<^verbatim>\<open>expiry\<close> given the property \<^verbatim>\<open>expired\<close> is false.
\<close>

definition OAuth2Credentials ::
  "pyval \<Rightarrow> pyval \<Rightarrow> pyval \<Rightarrow> pyval \<Rightarrow> pyval \<Rightarrow> pyval \<Rightarrow> pyval \<Rightarrow> creds" where
  "OAuth2Credentials tok rtok idt uri cid csecret scp =
     \<lparr>token = tok, refresh_token = Some rtok, id_token = Some idt, client_id = Some cid,
      client_secret = Some csecret, token_uri = Some uri, scopes = Some scp, expired = False\<rparr>"

definition DEFAULT_TOKEN_URI :: pyval where
  "DEFAULT_TOKEN_URI = PyStr ''https://oauth2.googleapis.com/token''"

text \<open>The \<^verbatim>\<open>try\<close> block of \<^verbatim>\<open>_load_stored_credentials\<close> (lines 120 to 138).\<close>

definition load_body :: "env \<Rightarrow> state \<Rightarrow> (exc + bool) \<times> state" where
  "load_body e s =
     (case open_read e (credentials_path s) s of
        (Inl x, s1) \<Rightarrow> (Inl x, s1)
      | (Inr txt, s1) \<Rightarrow>
          (case json_load e txt of
             Inl x \<Rightarrow> (Inl x, s1)
           | Inr (PyDict kvs) \<Rightarrow>
               (Inr True,
                log DEBUG ''Successfully loaded stored credentials''
                  (s1\<lparr>credentials :=
                        Some (OAuth2Credentials
                          (dict_get kvs ''token'' PyNone)
                          (dict_get kvs ''refresh_token'' PyNone)
                          (dict_get kvs ''id_token'' PyNone)
                          (dict_get kvs ''token_uri'' DEFAULT_TOKEN_URI)
                          (dict_get kvs ''client_id'' PyNone)
                          (dict_get kvs ''client_secret'' PyNone)
                          (dict_get kvs ''scopes'' REQUIRED_SCOPES)),
                      user_email := dict_get kvs ''user_email'' PyNone\<rparr>))
           | Inr cred_data \<Rightarrow> (Inl (attribute_error cred_data ''get''), s1)))"

text \<open>\<^verbatim>\<open>_load_stored_credentials\<close>: the handler of line 140 catches three classes only.\<close>

definition load_stored_credentials :: "env \<Rightarrow> state \<Rightarrow> (exc + bool) \<times> state" where
  "load_stored_credentials e s =
     (let s0 = emit (Exists (credentials_path s)) s
      in if files s (credentials_path s) = None
         then (Inr False, log DEBUG (''No stored credentials found at '' @ credentials_path s) s0)
         else
           (case load_body e s0 of
              (Inr b, s') \<Rightarrow> (Inr b, s')
            | (Inl x, s') \<Rightarrow>
                if isinstance x [JSONDecodeError, KeyError, FileNotFoundError]
                then (Inr False, log WARNING (''Failed to load stored credentials: '' @ msg x) s')
                else (Inl x, s')))"

text \<open>\<^verbatim>\<open>Path.parent\<close> of a normalised POSIX path.\<close>

definition parent :: "string \<Rightarrow> string" where
  "parent p =
     (if CHR ''/'' \<notin> set p then ''.''
      else (let d = rev (tl (dropWhile (\<lambda>c. c \<noteq> CHR ''/'') (rev p)))
            in if d = [] then ''/'' else d))"

text \<open>\<^verbatim>\<open>path.mkdir(parents=True, exist_ok=True)\<close>; directories are not part of \<open>files\<close>.\<close>

definition mkdir_parents :: "env \<Rightarrow> string \<Rightarrow> state \<Rightarrow> (exc + unit) \<times> state" where
  "mkdir_parents e d s =
     (let s1 = emit (Mkdir d) s
      in case mkdir_error e d of Some x \<Rightarrow> (Inl x, s1) | None \<Rightarrow> (Inr (), s1))"

text \<open>\<^verbatim>\<open>with open(path, "w") as f:\<close> writing \<open>txt\<close>: a new file gets the creation mode,
  an existing one keeps its mode.\<close>

definition open_write :: "env \<Rightarrow> string \<Rightarrow> string \<Rightarrow> state \<Rightarrow> (exc + unit) \<times> state" where
  "open_write e p txt s =
     (let s1 = emit (OpenWrite p) s
      in case open_write_error e p of
           Some x \<Rightarrow> (Inl x, s1)
         | None \<Rightarrow>
             (let m = (case files s p of None \<Rightarrow> create_mode e | Some f \<Rightarrow> mode f)
              in (Inr (), s1\<lparr>files := (files s1)(p \<mapsto> \<lparr>content = txt, mode = m\<rparr>)\<rparr>)))"

text \<open>\<^verbatim>\<open>os.chmod(path, m)\<close>\<close>

definition os_chmod :: "env \<Rightarrow> string \<Rightarrow> nat \<Rightarrow> state \<Rightarrow> (exc + unit) \<times> state" where
  "os_chmod e p m s =
     (let s1 = emit (Chmod p m) s
      in case chmod_error e p of
           Some x \<Rightarrow> (Inl x, s1)
         | None \<Rightarrow>
             (case files s p of
                None \<Rightarrow>
                  (Inl (Exc FileNotFoundError
                     (''[Errno 2] No such file or directory: '' @ quote p) None), s1)
              | Some f \<Rightarrow> (Inr (), s1\<lparr>files := (files s1)(p \<mapsto> f\<lparr>mode := m\<rparr>)\<rparr>)))"

text \<open>The dict of lines 253 to 264.\<close>

definition cred_data_of :: "creds \<Rightarrow> pyval \<Rightarrow> pyval" where
  "cred_data_of c email =
     PyDict
       [(''token'', token c),
        (''refresh_token'', getattr (refresh_token c) PyNone),
        (''id_token'', getattr (id_token c) PyNone),
        (''client_id'', getattr (client_id c) PyNone),
        (''client_secret'', getattr (client_secret c) PyNone),
        (''token_uri'', getattr (token_uri c) DEFAULT_TOKEN_URI),
        (''scopes'', getattr (scopes c) REQUIRED_SCOPES),
        (''user_email'', email)]"

text \<open>\<^verbatim>\<open>0o600\<close>: read and write for the owner.\<close>

definition S_600 :: nat where
  "S_600 = 6 * 64"

text \<open>The \<^verbatim>\<open>try\<close> block of \<^verbatim>\<open>_save_credentials\<close> (lines 267 to 272).\<close>

definition save_body :: "env \<Rightarrow> pyval \<Rightarrow> state \<Rightarrow> (exc + unit) \<times> state" where
  "save_body e cred_data s =
     (case open_write e (credentials_path s) (json_dump e cred_data) s of
        (Inl x, s1) \<Rightarrow> (Inl x, s1)
      | (Inr u, s1) \<Rightarrow>
          (case os_chmod e (credentials_path s1) S_600 s1 of
             (Inl x, s2) \<Rightarrow> (Inl x, s2)
           | (Inr u', s2) \<Rightarrow>
               (Inr (), log DEBUG (''Saved credentials to '' @ credentials_path s2) s2)))"

text \<open>
  \<^verbatim>\<open>_save_credentials\<close>. The \<^verbatim>\<open>mkdir\<close> of line 248 stands before the \<^verbatim>\<open>try\<close>, so what it
  raises leaves the method; what the \<^verbatim>\<open>try\<close> block raises is logged and dropped.
\<close>

definition save_credentials :: "env \<Rightarrow> state \<Rightarrow> (exc + unit) \<times> state" where
  "save_credentials e s =
     (case credentials s of
        None \<Rightarrow> (Inr (), s)
      | Some c0 \<Rightarrow>
          (case mkdir_parents e (parent (credentials_path s)) s of
             (Inl x, s1) \<Rightarrow> (Inl x, s1)
           | (Inr u, s1) \<Rightarrow>
               (case extract_user_email e s1 of
                  (Inl x, s2) \<Rightarrow> (Inl x, s2)
                | (Inr email, s2) \<Rightarrow>
                    (case credentials s2 of
                       None \<Rightarrow> (Inl (attribute_error PyNone ''token''), s2)
                     | Some c \<Rightarrow>
                         (case save_body e (cred_data_of c email) s2 of
                            (Inr u', s3) \<Rightarrow> (Inr (), s3)
                          | (Inl x, s3) \<Rightarrow>
                              (Inr (), log WARNING (''Failed to save credentials: '' @ msg x) s3))))))"

section \<open>OAuth flow runner and refresh\<close>

definition no_credentials_msg :: string where
  "no_credentials_msg =
     ''No OAuth client secrets found and no application default '' @
     ''credentials available. Please provide client secrets file or '' @
     ''set up application default credentials.''"

text \<open>The second \<^verbatim>\<open>try\<close> block of \<^verbatim>\<open>_perform_oauth_flow\<close> (lines 165 to 178), with the
  client-secrets path \<open>p\<close>.\<close>

definition oauth_flow_body :: "env \<Rightarrow> string \<Rightarrow> state \<Rightarrow> (exc + unit) \<times> state" where
  "oauth_flow_body e p s =
     (let s1 = emit (FromClientSecretsFile p) s
      in case from_client_secrets_file e p REQUIRED_SCOPES of
           Inl x \<Rightarrow> (Inl x, s1)
         | Inr fl \<Rightarrow>
             (let s2 = emit RunLocalServer s1
              in case run_local_server fl of
                   Inl x \<Rightarrow> (Inl x, s2)
                 | Inr c \<Rightarrow>
                     save_credentials e
                       (log INFO ''OAuth flow completed successfully'' (s2\<lparr>credentials := Some c\<rparr>))))"

text \<open>
  \<^verbatim>\<open>_perform_oauth_flow\<close>. The test of line 150 looks at the disk only when a
  client-secrets path is configured. \<open>ambient_credentials\<close> is the branch of lines 152
  to 161: it returns at line 155, and its handler turns \<^verbatim>\<open>DefaultCredentialsError\<close>
  into \<^verbatim>\<open>CredentialsNotFoundError\<close>.
\<close>

definition ambient_credentials :: "env \<Rightarrow> state \<Rightarrow> (exc + unit) \<times> state" where
  "ambient_credentials e s =
     (let s1 = emit GoogleAuthDefault s
      in case google_auth_default e REQUIRED_SCOPES of
           Inr c \<Rightarrow>
             (Inr (), log INFO ''Using application default credentials'' (s1\<lparr>credentials := Some c\<rparr>))
         | Inl x \<Rightarrow>
             if isinstance x [DefaultCredentialsError]
             then (Inl (Exc CredentialsNotFoundError no_credentials_msg None), s1)
             else (Inl x, s1))"

definition perform_oauth_flow :: "env \<Rightarrow> state \<Rightarrow> (exc + unit) \<times> state" where
  "perform_oauth_flow e s =
     (case client_secrets_path s of
        None \<Rightarrow> ambient_credentials e s
      | Some p \<Rightarrow>
          (let s0 = emit (Exists p) s
           in if files s p = None then ambient_credentials e s0
              else
                (case oauth_flow_body e p s0 of
                   (Inr u, s') \<Rightarrow> (Inr (), s')
                 | (Inl x, s') \<Rightarrow>
                     (Inl (Exc AuthenticationError (''OAuth flow failed: '' @ msg x) (Some x)), s'))))"

text \<open>The handler of line 200, around the refresh and the save after it.\<close>

definition refresh_handler :: "(exc + unit) \<times> state \<Rightarrow> (exc + unit) \<times> state" where
  "refresh_handler r =
     (case r of
        (Inr u, s) \<Rightarrow> (Inr u, s)
      | (Inl x, s) \<Rightarrow>
          if isinstance x [RefreshError]
          then (Inl (Exc TokenRefreshError (''Failed to refresh credentials: '' @ msg x) (Some x)), s)
          else (Inl x, s))"

text \<open>\<^verbatim>\<open>_refresh_credentials\<close>: a refresh that raises leaves the credentials as they were.\<close>

definition refresh_credentials :: "env \<Rightarrow> state \<Rightarrow> (exc + unit) \<times> state" where
  "refresh_credentials e s =
     (case credentials s of
        None \<Rightarrow> (Inl (Exc TokenRefreshError ''No credentials available to refresh'' None), s)
      | Some c \<Rightarrow>
          refresh_handler
            (let s1 = emit Refresh s
             in case refresh e c of
                  Inl x \<Rightarrow> (Inl x, s1)
                | Inr c' \<Rightarrow>
                    save_credentials e
                      (log DEBUG ''Successfully refreshed credentials'' (s1\<lparr>credentials := Some c'\<rparr>))))"

section \<open>Auth manager\<close>

text \<open>
  \<^verbatim>\<open>GoogleCloudAuth(credentials_path, client_secrets_path, audience)\<close> in a world with
  the files \<open>fs\<close>; \<open>home\<close> is \<^verbatim>\<open>Path.home()\<close>, from which the default path of line 34
  is built.
\<close>

definition DEFAULT_CREDENTIALS_PATH :: "string \<Rightarrow> string" where
  "DEFAULT_CREDENTIALS_PATH home = home @ ''/.gcphcp/credentials.json''"

definition GoogleCloudAuth ::
  "string \<Rightarrow> string option \<Rightarrow> string option \<Rightarrow> string option \<Rightarrow> (string \<Rightarrow> disk_file option) \<Rightarrow> state" where
  "GoogleCloudAuth home cpath spath aud fs =
     \<lparr>credentials_path = (case cpath of Some p \<Rightarrow> p | None \<Rightarrow> DEFAULT_CREDENTIALS_PATH home),
      client_secrets_path = spath, audience = aud, credentials = None, user_email = PyNone,
      files = fs, trace = []\<rparr>"

text \<open>Lines 80 and 81: \<^verbatim>\<open>force_reauth or not self._load_stored_credentials()\<close> does not
  load when \<open>force_reauth\<close> is set.\<close>

definition obtain_credentials :: "env \<Rightarrow> bool \<Rightarrow> state \<Rightarrow> (exc + unit) \<times> state" where
  "obtain_credentials e force_reauth s =
     (if force_reauth then perform_oauth_flow e s
      else
        (case load_stored_credentials e s of
           (Inl x, s1) \<Rightarrow> (Inl x, s1)
         | (Inr loaded, s1) \<Rightarrow> if loaded then (Inr (), s1) else perform_oauth_flow e s1))"

text \<open>Lines 84 and 85.\<close>

definition ensure_fresh :: "env \<Rightarrow> state \<Rightarrow> (exc + unit) \<times> state" where
  "ensure_fresh e s =
     (case credentials s of
        None \<Rightarrow> (Inr (), s)
      | Some c \<Rightarrow> if expired c then refresh_credentials e s else (Inr (), s))"

text \<open>Lines 87 to 104.\<close>

definition token_and_email :: "env \<Rightarrow> state \<Rightarrow> (exc + pyval \<times> pyval) \<times> state" where
  "token_and_email e s =
     (case credentials s of
        None \<Rightarrow> (Inl (Exc AuthenticationError ''Failed to obtain valid credentials'' None), s)
      | Some c \<Rightarrow>
          (case id_token c of
             None \<Rightarrow> (Inl (Exc AuthenticationError ''Failed to obtain ID token from credentials'' None), s)
           | Some idt \<Rightarrow>
               if truthy idt then
                 (case extract_user_email e s of
                    (Inl x, s1) \<Rightarrow> (Inl x, s1)
                  | (Inr email, s1) \<Rightarrow>
                      if \<not> truthy email
                      then (Inl (Exc AuthenticationError
                              ''Failed to extract user email from credentials'' None), s1)
                      else (Inr (idt, email), s1))
               else (Inl (Exc AuthenticationError ''Failed to obtain ID token from credentials'' None), s)))"

text \<open>The fallback of \<^verbatim>\<open>authenticate\<close> (lines 79 to 104).\<close>

definition oauth_fallback :: "env \<Rightarrow> bool \<Rightarrow> state \<Rightarrow> (exc + pyval \<times> pyval) \<times> state" where
  "oauth_fallback e force_reauth s =
     (case obtain_credentials e force_reauth s of
        (Inl x, s1) \<Rightarrow> (Inl x, s1)
      | (Inr u, s1) \<Rightarrow>
          (case ensure_fresh e s1 of
             (Inl x, s2) \<Rightarrow> (Inl x, s2)
           | (Inr u', s2) \<Rightarrow> token_and_email e s2))"

text \<open>The outer \<^verbatim>\<open>try\<close> block of \<^verbatim>\<open>authenticate\<close> (lines 72 to 104): the external tool
  first; only an \<^verbatim>\<open>AuthenticationError\<close> of it leads to the fallback.\<close>

definition authenticate_body :: "env \<Rightarrow> bool \<Rightarrow> state \<Rightarrow> (exc + pyval \<times> pyval) \<times> state" where
  "authenticate_body e force_reauth s =
     (case get_identity_token_without_audience e s of
        (Inr r, s1) \<Rightarrow> (Inr r, s1)
      | (Inl x, s1) \<Rightarrow>
          if isinstance x [AuthenticationError] then
            oauth_fallback e force_reauth
              (log INFO ''Falling back to OAuth flow''
                 (log WARNING (''Failed to get identity token from gcloud: '' @ msg x) s1))
          else (Inl x, s1))"

text \<open>\<^verbatim>\<open>authenticate\<close> with the handler of line 106.\<close>

definition authenticate :: "env \<Rightarrow> bool \<Rightarrow> state \<Rightarrow> (exc + pyval \<times> pyval) \<times> state" where
  "authenticate e force_reauth s =
     (case authenticate_body e force_reauth s of
        (Inr r, s') \<Rightarrow> (Inr r, s')
      | (Inl x, s') \<Rightarrow>
          if isinstance x [RefreshError, DefaultCredentialsError]
          then (Inl (Exc AuthenticationError (''Authentication failed: '' @ msg x) (Some x)), s')
          else (Inl x, s'))"

section \<open>Reference behaviour of the libraries\<close>

text \<open>
  The theorems below hold for every behaviour of the library functions. To run the
  manager on concrete inputs, this section gives executable reference functions for
  the Python standard library calls and an environment built from them.
\<close>

text \<open>
  \<^verbatim>\<open>base64.urlsafe_b64decode\<close> on a \<^verbatim>\<open>str\<close>: the text must be ASCII; \<open>-\<close> and \<open>_\<close> stand
  for \<open>+\<close> and \<open>/\<close>; the decoding loop is the one of CPython's \<^verbatim>\<open>binascii.a2b_base64\<close>
  in its default mode, which skips characters outside the alphabet, stops at a
  complete pad sequence and refuses an incomplete last group.
\<close>

definition b64_value :: "char \<Rightarrow> nat option" where
  "b64_value c =
     (let n = (of_char c :: nat)
      in if 65 \<le> n \<and> n \<le> 90 then Some (n - 65)
         else if 97 \<le> n \<and> n \<le> 122 then Some (n - 71)
         else if 48 \<le> n \<and> n \<le> 57 then Some (n + 4)
         else if c = CHR ''+'' \<or> c = CHR ''-'' then Some 62
         else if c = CHR ''/'' \<or> c = CHR ''_'' then Some 63
         else None)"

fun a2b_base64 :: "nat \<Rightarrow> nat \<Rightarrow> nat \<Rightarrow> string \<Rightarrow> string \<Rightarrow> exc + string" where
  "a2b_base64 quad_pos leftchar pads out [] =
     (if quad_pos = 0 then Inr (rev out)
      else if quad_pos = 1
      then Inl (Exc (OtherError ''binascii.Error'') ''Invalid base64-encoded string'' None)
      else Inl (Exc (OtherError ''binascii.Error'') ''Incorrect padding'' None))"
| "a2b_base64 quad_pos leftchar pads out (c # cs) =
     (if c = CHR ''='' then
        (if quad_pos \<ge> 2 \<and> quad_pos + (pads + 1) \<ge> 4 then Inr (rev out)
         else a2b_base64 quad_pos leftchar (if quad_pos \<ge> 2 then pads + 1 else pads) out cs)
      else
        (case b64_value c of
           None \<Rightarrow> a2b_base64 quad_pos leftchar pads out cs
         | Some v \<Rightarrow>
             if quad_pos = 0 then a2b_base64 1 v 0 out cs
             else if quad_pos = 1
             then a2b_base64 2 (v mod 16) 0 (char_of (leftchar * 4 + v div 16) # out) cs
             else if quad_pos = 2
             then a2b_base64 3 (v mod 4) 0 (char_of (leftchar * 16 + v div 4) # out) cs
             else a2b_base64 0 0 0 (char_of (leftchar * 64 + v) # out) cs))"

definition is_ascii :: "string \<Rightarrow> bool" where
  "is_ascii s = list_all (\<lambda>c. (of_char c :: nat) < 128) s"

definition ref_urlsafe_b64decode :: "string \<Rightarrow> exc + string" where
  "ref_urlsafe_b64decode s =
     (if is_ascii s then a2b_base64 0 0 0 [] s
      else Inl (Exc (OtherError ''ValueError'')
             ''string argument should contain only ASCII characters'' None))"

text \<open>\<^verbatim>\<open>bytes.decode("utf-8")\<close> on ASCII bytes; a byte above 127 is refused here, since
  a multi-byte sequence would need code points a \<open>char\<close> cannot hold.\<close>

definition ref_decode_utf8 :: "string \<Rightarrow> exc + string" where
  "ref_decode_utf8 b =
     (if is_ascii b then Inr b
      else Inl (Exc (OtherError ''UnicodeDecodeError'') ''invalid start byte'' None))"

text \<open>
  \<^verbatim>\<open>json.loads\<close> on the part of JSON the credential file and the token payloads use:
  objects (a repeated key keeps its last value), arrays, strings with the escapes
  of one character and \<^verbatim>\<open>\u00XX\<close>, integers, \<^verbatim>\<open>true\<close>, \<^verbatim>\<open>false\<close> and \<^verbatim>\<open>null\<close>. Numbers
  with a fraction or an exponent are refused here. The first argument of
  \<open>parse_value\<close> bounds the number of nested calls; the length of the text is enough.
\<close>

definition is_json_ws :: "char \<Rightarrow> bool" where
  "is_json_ws c = (c = CHR '' '' \<or> c = CHR 0x09 \<or> c = CHR 0x0A \<or> c = CHR 0x0D)"

definition skip_ws :: "string \<Rightarrow> string" where
  "skip_ws s = dropWhile is_json_ws s"

definition hex_value :: "char \<Rightarrow> nat option" where
  "hex_value c =
     (let n = (of_char c :: nat)
      in if 48 \<le> n \<and> n \<le> 57 then Some (n - 48)
         else if 97 \<le> n \<and> n \<le> 102 then Some (n - 87)
         else if 65 \<le> n \<and> n \<le> 70 then Some (n - 55)
         else None)"

definition unescape :: "char \<Rightarrow> char option" where
  "unescape c =
     (if c = CHR 0x22 then Some (CHR 0x22)
      else if c = CHR 0x5C then Some (CHR 0x5C)
      else if c = CHR ''/'' then Some (CHR ''/'')
      else if c = CHR ''b'' then Some (CHR 0x08)
      else if c = CHR ''f'' then Some (CHR 0x0C)
      else if c = CHR ''n'' then Some (CHR 0x0A)
      else if c = CHR ''r'' then Some (CHR 0x0D)
      else if c = CHR ''t'' then Some (CHR 0x09)
      else None)"

fun parse_string :: "string \<Rightarrow> string \<Rightarrow> (string \<times> string) option" where
  "parse_string acc [] = None"
| "parse_string acc [c] = (if c = CHR 0x22 then Some (rev acc, []) else None)"
| "parse_string acc (c # d # ds) =
     (if c = CHR 0x22 then Some (rev acc, d # ds)
      else if c = CHR 0x5C then
        (if d = CHR ''u'' then
           (case ds of
              h1 # h2 # h3 # h4 # rest \<Rightarrow>
                (case (hex_value h1, hex_value h2, hex_value h3, hex_value h4) of
                   (Some 0, Some 0, Some a, Some b) \<Rightarrow> parse_string (char_of (16 * a + b) # acc) rest
                 | _ \<Rightarrow> None)
            | _ \<Rightarrow> None)
         else (case unescape d of None \<Rightarrow> None | Some ch \<Rightarrow> parse_string (ch # acc) ds))
      else if (of_char c :: nat) < 32 then None
      else parse_string (c # acc) (d # ds))"

fun parse_digits :: "nat \<Rightarrow> string \<Rightarrow> nat \<times> string" where
  "parse_digits acc [] = (acc, [])"
| "parse_digits acc (c # cs) =
     (let n = (of_char c :: nat)
      in if 48 \<le> n \<and> n \<le> 57 then parse_digits (10 * acc + (n - 48)) cs else (acc, c # cs))"

definition is_digit :: "char \<Rightarrow> bool" where
  "is_digit c = (48 \<le> (of_char c :: nat) \<and> (of_char c :: nat) \<le> 57)"

definition parse_int :: "string \<Rightarrow> (pyval \<times> string) option" where
  "parse_int s =
     (let neg = (s \<noteq> [] \<and> hd s = CHR ''-'');
          ds = (if neg then tl s else s)
      in if ds = [] \<or> \<not> is_digit (hd ds) then None
         else if hd ds = CHR ''0'' \<and> tl ds \<noteq> [] \<and> is_digit (hd (tl ds)) then None
         else (let (n, rest) = parse_digits 0 ds
               in if rest \<noteq> [] \<and> (hd rest = CHR ''.'' \<or> hd rest = CHR ''e'' \<or> hd rest = CHR ''E'')
                  then None
                  else Some (PyInt (if neg then - int n else int n), rest)))"

fun dict_set :: "(string \<times> pyval) list \<Rightarrow> string \<Rightarrow> pyval \<Rightarrow> (string \<times> pyval) list" where
  "dict_set [] k v = [(k, v)]"
| "dict_set ((k', v') # kvs) k v = (if k' = k then (k, v) # kvs else (k', v') # dict_set kvs k v)"

fun parse_value :: "nat \<Rightarrow> string \<Rightarrow> (pyval \<times> string) option"
and parse_elements :: "nat \<Rightarrow> pyval list \<Rightarrow> string \<Rightarrow> (pyval \<times> string) option"
and parse_members :: "nat \<Rightarrow> (string \<times> pyval) list \<Rightarrow> string \<Rightarrow> (pyval \<times> string) option" where
  "parse_value 0 s = None"
| "parse_value (Suc n) s =
     (case skip_ws s of
        [] \<Rightarrow> None
      | c # cs \<Rightarrow>
          if c = CHR 0x22 then
            (case parse_string [] cs of None \<Rightarrow> None | Some (t, r) \<Rightarrow> Some (PyStr t, r))
          else if c = CHR ''['' then
            (if starts_with '']'' (skip_ws cs) then Some (PyList [], tl (skip_ws cs))
             else parse_elements n [] cs)
          else if c = CHR ''{'' then
            (if starts_with ''}'' (skip_ws cs) then Some (PyDict [], tl (skip_ws cs))
             else parse_members n [] cs)
          else if starts_with ''null'' (c # cs) then Some (PyNone, drop 4 (c # cs))
          else if starts_with ''true'' (c # cs) then Some (PyBool True, drop 4 (c # cs))
          else if starts_with ''false'' (c # cs) then Some (PyBool False, drop 5 (c # cs))
          else parse_int (c # cs))"
| "parse_elements 0 acc s = None"
| "parse_elements (Suc n) acc s =
     (case parse_value n s of
        None \<Rightarrow> None
      | Some (v, r) \<Rightarrow>
          if starts_with '','' (skip_ws r) then parse_elements n (v # acc) (tl (skip_ws r))
          else if starts_with '']'' (skip_ws r) then Some (PyList (rev (v # acc)), tl (skip_ws r))
          else None)"
| "parse_members 0 acc s = None"
| "parse_members (Suc n) acc s =
     (if starts_with [CHR 0x22] (skip_ws s) then
        (case parse_string [] (tl (skip_ws s)) of
           None \<Rightarrow> None
         | Some (k, r) \<Rightarrow>
             if starts_with '':'' (skip_ws r) then
               (case parse_value n (tl (skip_ws r)) of
                  None \<Rightarrow> None
                | Some (v, r') \<Rightarrow>
                    if starts_with '','' (skip_ws r') then parse_members n (dict_set acc k v) (tl (skip_ws r'))
                    else if starts_with ''}'' (skip_ws r') then Some (PyDict (dict_set acc k v), tl (skip_ws r'))
                    else None)
             else None)
      else None)"

definition ref_json_loads :: "string \<Rightarrow> exc + pyval" where
  "ref_json_loads s =
     (case parse_value (Suc (length s)) s of
        None \<Rightarrow> Inl (Exc JSONDecodeError ''Expecting value'' None)
      | Some (v, r) \<Rightarrow>
          if skip_ws r = [] then Inr v else Inl (Exc JSONDecodeError ''Extra data'' None))"

text \<open>\<^verbatim>\<open>json.dump(obj, f, indent=2)\<close>: two spaces for each level, \<^verbatim>\<open>", "\<close> replaced by a
  comma and a new line, every character outside printable ASCII escaped.\<close>

definition hex_digit :: "nat \<Rightarrow> char" where
  "hex_digit n = (if n < 10 then char_of (48 + n) else char_of (87 + n))"

definition escape_char :: "char \<Rightarrow> string" where
  "escape_char c =
     (let n = (of_char c :: nat)
      in if c = CHR 0x22 then [CHR 0x5C, CHR 0x22]
         else if c = CHR 0x5C then [CHR 0x5C, CHR 0x5C]
         else if c = CHR 0x0A then [CHR 0x5C, CHR ''n'']
         else if c = CHR 0x0D then [CHR 0x5C, CHR ''r'']
         else if c = CHR 0x09 then [CHR 0x5C, CHR ''t'']
         else if c = CHR 0x08 then [CHR 0x5C, CHR ''b'']
         else if c = CHR 0x0C then [CHR 0x5C, CHR ''f'']
         else if n < 32 \<or> 126 < n
         then [CHR 0x5C, CHR ''u'', CHR ''0'', CHR ''0'', hex_digit (n div 16), hex_digit (n mod 16)]
         else [c])"

definition dump_string :: "string \<Rightarrow> string" where
  "dump_string s = CHR 0x22 # concat (map escape_char s) @ [CHR 0x22]"

fun show_nat :: "nat \<Rightarrow> string" where
  "show_nat n = (if n < 10 then [char_of (48 + n)] else show_nat (n div 10) @ [char_of (48 + n mod 10)])"

definition show_int :: "int \<Rightarrow> string" where
  "show_int i = (if i < 0 then CHR ''-'' # show_nat (nat (- i)) else show_nat (nat i))"

definition newline_indent :: "nat \<Rightarrow> string" where
  "newline_indent lvl = CHR 0x0A # replicate (2 * lvl) CHR '' ''"

fun dump_value :: "nat \<Rightarrow> pyval \<Rightarrow> string" where
  "dump_value lvl PyNone = ''null''"
| "dump_value lvl (PyBool b) = (if b then ''true'' else ''false'')"
| "dump_value lvl (PyInt i) = show_int i"
| "dump_value lvl (PyStr s) = dump_string s"
| "dump_value lvl (PyList xs) =
     (if xs = [] then ''[]''
      else ''['' @ newline_indent (Suc lvl) @
           join ('','' @ newline_indent (Suc lvl)) (map (dump_value (Suc lvl)) xs) @
           newline_indent lvl @ '']'')"
| "dump_value lvl (PyDict kvs) =
     (if kvs = [] then ''{}''
      else ''{'' @ newline_indent (Suc lvl) @
           join ('','' @ newline_indent (Suc lvl))
             (map (\<lambda>kv. dump_string (fst kv) @ '': '' @ dump_value (Suc lvl) (snd kv)) kvs) @
           newline_indent lvl @ ''}'')"

definition ref_json_dump :: "pyval \<Rightarrow> string" where
  "ref_json_dump v = dump_value 0 v"

text \<open>
  A machine on which every file operation is accepted and new files get mode
  \<^verbatim>\<open>0o644\<close>, with no external tool installed, no ambient credentials, no valid
  client-secrets file and no reachable token endpoint.
\<close>

definition ref_env :: env where
  "ref_env =
     \<lparr>run = (\<lambda>cmd timeout. Inl (Exc FileNotFoundError
               (''[Errno 2] No such file or directory: '' @ quote ''gcloud'') None)),
      open_read_error = (\<lambda>p. None),
      mkdir_error = (\<lambda>p. None),
      open_write_error = (\<lambda>p. None),
      chmod_error = (\<lambda>p. None),
      create_mode = 6 * 64 + 4 * 8 + 4,
      json_load = ref_json_loads,
      json_dump = ref_json_dump,
      urlsafe_b64decode = ref_urlsafe_b64decode,
      decode_utf8 = ref_decode_utf8,
      json_loads = ref_json_loads,
      google_auth_default = (\<lambda>scp. Inl (Exc DefaultCredentialsError
               ''Your default credentials were not found.'' None)),
      from_client_secrets_file = (\<lambda>p scp. Inl (Exc (OtherError ''ValueError'')
               ''Client secrets must be for a web or installed app.'' None)),
      refresh = (\<lambda>c. Inl (Exc RefreshError ''invalid_grant'' None))\<rparr>"

text \<open>The external tool answering the token call with \<open>a\<close> and the account lookup
  with \<open>b\<close>.\<close>

definition gcloud ::
  "exc + completed_process \<Rightarrow> exc + completed_process \<Rightarrow> string list \<Rightarrow> nat \<Rightarrow> exc + completed_process" where
  "gcloud a b cmd timeout =
     (if cmd = token_cmd then a else if cmd = email_cmd then b
      else Inl (Exc FileNotFoundError
             (''[Errno 2] No such file or directory: '' @
              quote (case cmd of [] \<Rightarrow> [] | c # cs \<Rightarrow> c)) None))"

section \<open>Notions used in the statements\<close>

text \<open>
  The token extractor as the specification describes it: the second segment of the
  token, padded with \<^verbatim>\<open>=\<close> to a multiple of four characters, base64url-decoded, and
  parsed as structured text; \<open>email_claim\<close> is the email field of the parsed payload,
  if it is an object that has one.
\<close>

definition restore_padding :: "string \<Rightarrow> string" where
  "restore_padding seg = seg @ replicate ((4 - length seg mod 4) mod 4) CHR ''=''"

definition decode_claims :: "env \<Rightarrow> string \<Rightarrow> exc + pyval" where
  "decode_claims e seg =
     (case urlsafe_b64decode e (restore_padding seg) of
        Inl x \<Rightarrow> Inl x
      | Inr decoded \<Rightarrow>
          (case decode_utf8 e decoded of
             Inl x \<Rightarrow> Inl x
           | Inr txt \<Rightarrow> json_loads e txt))"

definition email_claim :: "pyval \<Rightarrow> pyval option" where
  "email_claim v = (case v of PyDict kvs \<Rightarrow> map_of kvs ''email'' | _ \<Rightarrow> None)"

text \<open>
  A segment is valid base64url, in the words of the specification, when each of its
  characters is in the URL-safe alphabet (letters, digits, \<open>-\<close> and \<open>_\<close>).
\<close>

definition base64url_char :: "char \<Rightarrow> bool" where
  "base64url_char c =
     (let n = (of_char c :: nat)
      in (65 \<le> n \<and> n \<le> 90) \<or> (97 \<le> n \<and> n \<le> 122) \<or> (48 \<le> n \<and> n \<le> 57)
         \<or> c = CHR ''-'' \<or> c = CHR ''_'')"

definition valid_base64url :: "string \<Rightarrow> bool" where
  "valid_base64url seg = list_all base64url_char seg"

text \<open>
  The email the \<^verbatim>\<open>try\<close> block of the extractor stores for an identity token (\<open>None\<close>
  when it stores nothing), and the email the extractor leaves cached, given the one
  cached before and the identity token of the credentials (\<^verbatim>\<open>None\<close> when they have
  none).
\<close>

definition token_email :: "env \<Rightarrow> pyval \<Rightarrow> pyval option" where
  "token_email e idt =
     (case idt of
        PyStr t \<Rightarrow>
          (if length (split_on CHR ''.'' t) < 2 then None
           else (case decode_claims e (split_on CHR ''.'' t ! 1) of
                   Inr (PyDict kvs) \<Rightarrow> Some (dict_get kvs ''email'' PyNone)
                 | _ \<Rightarrow> None))
      | _ \<Rightarrow> None)"

definition cached_or_token_email :: "env \<Rightarrow> pyval \<Rightarrow> pyval \<Rightarrow> pyval" where
  "cached_or_token_email e cached idt =
     (if truthy cached then cached
      else if truthy idt then (case token_email e idt of None \<Rightarrow> cached | Some v \<Rightarrow> v)
      else cached)"

text \<open>The permission bits of group and others (\<^verbatim>\<open>0o077\<close>) in a file mode.\<close>

definition group_other_bits :: "nat \<Rightarrow> nat" where
  "group_other_bits m = m mod 64"

text \<open>The state in which \<open>save_credentials\<close> opens the file: the directory made, the
  email resolved.\<close>

definition before_write :: "env \<Rightarrow> state \<Rightarrow> state" where
  "before_write e s = snd (extract_user_email e (emit (Mkdir (parent (credentials_path s))) s))"

text \<open>The state in which the interactive branch calls \<open>save_credentials\<close>, after the
  user's consent gave the credentials \<open>c\<close>.\<close>

definition after_consent :: "string \<Rightarrow> creds \<Rightarrow> state \<Rightarrow> state" where
  "after_consent p c s =
     s\<lparr>credentials := Some c,
       trace := trace s @ [Exists p, FromClientSecretsFile p, RunLocalServer,
                  Log INFO ''OAuth flow completed successfully'']\<rparr>"

section \<open>Example machines and managers\<close>

text \<open>A manager with default paths in the home directory \<^verbatim>\<open>/home/u\<close>, on an empty disk.\<close>

definition fresh :: state where
  "fresh = GoogleCloudAuth ''/home/u'' None None None (\<lambda>p. None)"

text \<open>Example outcomes of the external tool: the reference machine with the tool
  installed, the answer of a tool that is not logged in, and a lookup that times out.\<close>

definition env_tool :: "exc + completed_process \<Rightarrow> exc + completed_process \<Rightarrow> env" where
  "env_tool a b = ref_env\<lparr>run := gcloud a b\<rparr>"

definition not_logged_in_result :: completed_process where
  "not_logged_in_result =
     \<lparr>returncode = 1, stdout = [],
      stderr = ''ERROR: (gcloud.auth.print-identity-token) You do not currently '' @
               ''have an active account. Not logged in.''\<rparr>"

definition lookup_timeout :: exc where
  "lookup_timeout =
     Exc TimeoutExpired
       (''Command '' @ quote (''['' @ join '', '' (map quote email_cmd) @ '']'') @
        '' timed out after 10 seconds'') None"

text \<open>
  Example credentials and machines: an identity token whose payload is
  \<^verbatim>\<open>{"email":"a@b.c"}\<close>, with a manager holding OAuth credentials with a given
  identity token and no cached email; a manager whose credential file holds a given
  text; ambient credentials as a metadata server gives them, with a machine that has
  them; the credentials an interactive consent ends with, with a machine whose OAuth
  flow yields them and a manager configured with a client-secrets file.
\<close>

definition sample_token :: string where
  "sample_token = ''eyJhbGciOiJSUzI1NiJ9.eyJlbWFpbCI6ImFAYi5jIn0.c2ln''"

text \<open>The token with the payload \<^verbatim>\<open>{"email":"a@b.co"}\<close> and a \<open>!\<close> put into its second
  segment.\<close>

definition stray_char_token :: string where
  "stray_char_token = ''eyJhbGciOiJSUzI1NiJ9.eyJl!bWFpbCI6ImFAYi5jbyJ9.c2ln''"

definition with_id_token :: "string \<Rightarrow> state" where
  "with_id_token t =
     fresh\<lparr>credentials := Some (OAuth2Credentials (PyStr ''ya29.a0'') (PyStr ''1//0g'') (PyStr t)
                DEFAULT_TOKEN_URI (PyStr ''cid'') (PyStr ''secret'') REQUIRED_SCOPES)\<rparr>"

definition with_cred_file :: "string \<Rightarrow> state" where
  "with_cred_file txt =
     fresh\<lparr>files := (\<lambda>p. if p = ''/home/u/.gcphcp/credentials.json''
                           then Some \<lparr>content = txt, mode = S_600\<rparr> else None)\<rparr>"

definition ambient_creds :: creds where
  "ambient_creds =
     \<lparr>token = PyNone, refresh_token = None, id_token = None, client_id = None,
      client_secret = None, token_uri = None, scopes = Some REQUIRED_SCOPES, expired = False\<rparr>"

definition env_ambient :: env where
  "env_ambient = ref_env\<lparr>google_auth_default := (\<lambda>scp. Inr ambient_creds)\<rparr>"

definition consent_creds :: creds where
  "consent_creds =
     OAuth2Credentials (PyStr ''ya29.a0'') (PyStr ''1//0g'') (PyStr sample_token)
       DEFAULT_TOKEN_URI (PyStr ''cid'') (PyStr ''secret'') REQUIRED_SCOPES"

definition env_consent :: env where
  "env_consent = ref_env\<lparr>from_client_secrets_file := (\<lambda>p scp. Inr (Flow (Inr consent_creds)))\<rparr>"

definition with_client_secrets :: state where
  "with_client_secrets =
     (GoogleCloudAuth ''/home/u'' None (Some ''/home/u/client_secret.json'') None
        (\<lambda>p. if p = ''/home/u/client_secret.json''
             then Some \<lparr>content = ''{\"installed\": {}}'', mode = S_600\<rparr> else None))"

section \<open>External-tool token source: properties\<close>

lemma isinstance_AuthenticationError [simp]:
  "isinstance (Exc AuthenticationError m c) [TimeoutExpired] = False"
  "isinstance (Exc AuthenticationError m c) [FileNotFoundError] = False"
  "isinstance (Exc AuthenticationError m c) [AuthenticationError] = True"
  "isinstance (Exc AuthenticationError m c) [RefreshError, DefaultCredentialsError] = False"
  by (simp_all add: isinstance_def)

lemma isinstance_CredentialsNotFoundError [simp]:
  "isinstance (Exc CredentialsNotFoundError m c) [RefreshError, DefaultCredentialsError] = False"
  by (simp add: isinstance_def)

lemma run_env_tool:
  "run (env_tool a b) token_cmd 30 = a"
  "run (env_tool a b) email_cmd 10 = b"
  by (simp_all add: env_tool_def gcloud_def token_cmd_def email_cmd_def)

text \<open>The external-tool fetch touches nothing but the trace.\<close>

lemma get_identity_token_frame:
  "\<exists>t. snd (get_identity_token_without_audience e s) = s\<lparr>trace := t\<rparr>"
  by (auto simp add: get_identity_token_without_audience_def get_identity_token_body_def
        subprocess_run_def Let_def log_def emit_def split: sum.splits prod.splits)

text \<open>What the fetch returns when the token call completes and the classification of
  lines 323 to 339 raises.\<close>

lemma get_identity_token_classified:
  assumes "run e token_cmd 30 = Inr result"
    and "returncode result \<noteq> 0 \<or> strip (stdout result) = []"
  shows "fst (get_identity_token_without_audience e s) =
         (let m = (if returncode result \<noteq> 0
                   then (if not_logged_in (error_msg_of result) then not_authenticated_msg
                         else ''gcloud auth print-identity-token failed: '' @ error_msg_of result)
                   else ''gcloud returned empty identity token'')
          in Inl (Exc AuthenticationError (''Failed to get identity token: '' @ m)
                    (Some (Exc AuthenticationError m None))))"
  using assms
  by (auto simp add: get_identity_token_without_audience_def get_identity_token_body_def
        subprocess_run_def Let_def)

text \<open>
  Claim C10. Whenever the token call completes and the body classifies it as a failure
  (nonzero exit with a not-logged-in message, nonzero exit with any other message, or
  zero exit with empty output), the \<^verbatim>\<open>AuthenticationError\<close> of the classification,
  with message \<open>m\<close>, is caught by the last handler of the same method: the caller gets a
  new \<^verbatim>\<open>AuthenticationError\<close> whose message is \<^verbatim>\<open>Failed to get identity token: \<close> followed
  by \<open>m\<close> and whose cause is the classified error.
\<close>

theorem classified_failure_is_rewrapped:
  assumes "run e token_cmd 30 = Inr result"
    and "returncode result \<noteq> 0 \<or> strip (stdout result) = []"
  shows "fst (get_identity_token_without_audience e s) =
         (let m = (if returncode result \<noteq> 0
                   then (if not_logged_in (error_msg_of result) then not_authenticated_msg
                         else ''gcloud auth print-identity-token failed: '' @ error_msg_of result)
                   else ''gcloud returned empty identity token'')
          in Inl (Exc AuthenticationError (''Failed to get identity token: '' @ m)
                    (Some (Exc AuthenticationError m None))))"
  using assms by (rule get_identity_token_classified)

theorem classified_failure_is_rewrapped_witness:
  "fst (get_identity_token_without_audience
          (env_tool (Inr not_logged_in_result) (Inl lookup_timeout)) fresh) =
     Inl (Exc AuthenticationError (''Failed to get identity token: '' @ not_authenticated_msg)
            (Some (Exc AuthenticationError not_authenticated_msg None)))
   \<and> fst (get_identity_token_without_audience
        (env_tool (Inr \<lparr>returncode = 2, stdout = [], stderr = ''quota exceeded''\<rparr>)
           (Inl lookup_timeout)) fresh) =
     Inl (Exc AuthenticationError
            ''Failed to get identity token: gcloud auth print-identity-token failed: quota exceeded''
            (Some (Exc AuthenticationError
               ''gcloud auth print-identity-token failed: quota exceeded'' None)))
   \<and> fst (get_identity_token_without_audience
        (env_tool (Inr \<lparr>returncode = 0, stdout = ''  '', stderr = []\<rparr>)
           (Inl lookup_timeout)) fresh) =
     Inl (Exc AuthenticationError
            ''Failed to get identity token: gcloud returned empty identity token''
            (Some (Exc AuthenticationError ''gcloud returned empty identity token'' None)))"
proof -
  let ?r2 = "\<lparr>returncode = 2, stdout = [], stderr = ''quota exceeded''\<rparr>"
  let ?r3 = "\<lparr>returncode = 0, stdout = ''  '', stderr = []\<rparr>"
  note run = run_env_tool(1)
  have 1: "returncode not_logged_in_result \<noteq> 0 \<or> strip (stdout not_logged_in_result) = []"
    by (simp add: not_logged_in_result_def)
  have 2: "returncode ?r2 \<noteq> 0 \<or> strip (stdout ?r2) = []" by simp
  have 3: "returncode ?r3 \<noteq> 0 \<or> strip (stdout ?r3) = []" by code_simp
  have c1: "returncode not_logged_in_result \<noteq> 0" "not_logged_in (error_msg_of not_logged_in_result)"
    by code_simp+
  have c2: "\<not> not_logged_in (error_msg_of ?r2)" "error_msg_of ?r2 = ''quota exceeded''"
    by code_simp+
  show ?thesis
    using classified_failure_is_rewrapped [OF run 1, of "Inl lookup_timeout" fresh]
      classified_failure_is_rewrapped [OF run 2, of "Inl lookup_timeout" fresh]
      classified_failure_is_rewrapped [OF run 3, of "Inl lookup_timeout" fresh] c1 c2
    by (simp add: Let_def)
qed

text \<open>
  Claim C4, as stated, fails: when the token call has succeeded and the account lookup
  times out, the fetch raises \<^verbatim>\<open>AuthenticationError\<close> instead of returning the token
  with the placeholder email.
\<close>

theorem account_lookup_timeout_counterexample:
  "fst (get_identity_token_without_audience
          (env_tool (Inr \<lparr>returncode = 0, stdout = ''abc.def'', stderr = []\<rparr>)
             (Inl lookup_timeout)) fresh) =
     Inl (Exc AuthenticationError ''Timeout while calling gcloud command'' None)"
  by code_simp

text \<open>
  Claim C4, amended. Given a token call that succeeded with a nonempty token: when the
  account lookup completes with a nonzero exit code, the fetch returns the token with
  the placeholder email \<^verbatim>\<open>unknown@example.com\<close>; when the lookup call itself raises, the
  fetch raises \<^verbatim>\<open>AuthenticationError\<close>, and for a timeout the message is
  \<^verbatim>\<open>Timeout while calling gcloud command\<close>.
\<close>

theorem account_lookup_outcomes:
  assumes "run e token_cmd 30 = Inr result"
    and "returncode result = 0" and "strip (stdout result) \<noteq> []"
  shows "(\<forall>email_result. run e email_cmd 10 = Inr email_result \<and> returncode email_result \<noteq> 0 \<longrightarrow>
            fst (get_identity_token_without_audience e s) =
              Inr (PyStr (strip (stdout result)), PyStr ''unknown@example.com''))
       \<and> (\<forall>x. run e email_cmd 10 = Inl x \<and> isinstance x [TimeoutExpired] \<longrightarrow>
            fst (get_identity_token_without_audience e s) =
              Inl (Exc AuthenticationError ''Timeout while calling gcloud command'' None))
       \<and> (\<forall>x. run e email_cmd 10 = Inl x \<longrightarrow>
            (\<exists>m c. fst (get_identity_token_without_audience e s) =
                     Inl (Exc AuthenticationError m c)))"
  using assms
  by (auto simp add: get_identity_token_without_audience_def get_identity_token_body_def
        subprocess_run_def Let_def)

theorem account_lookup_outcomes_witness:
  "fst (get_identity_token_without_audience
          (env_tool (Inr \<lparr>returncode = 0, stdout = ''abc.def'', stderr = []\<rparr>)
             (Inr \<lparr>returncode = 1, stdout = [], stderr = ''(unset)''\<rparr>)) fresh) =
     Inr (PyStr ''abc.def'', PyStr ''unknown@example.com'')
   \<and> fst (get_identity_token_without_audience
          (env_tool (Inr \<lparr>returncode = 0, stdout = ''abc.def'', stderr = []\<rparr>)
             (Inl lookup_timeout)) fresh) =
     Inl (Exc AuthenticationError ''Timeout while calling gcloud command'' None)"
proof -
  let ?tok = "\<lparr>returncode = 0, stdout = ''abc.def'', stderr = []\<rparr>"
  let ?acc = "\<lparr>returncode = 1, stdout = [], stderr = ''(unset)''\<rparr>"
  note run = run_env_tool(1) and lookup = run_env_tool(2)
  have 1: "returncode ?tok = 0" by simp
  have 2: "strip (stdout ?tok) \<noteq> []" by code_simp
  have 3: "strip (stdout ?tok) = ''abc.def''" by code_simp
  have 4: "isinstance lookup_timeout [TimeoutExpired]" by code_simp
  show ?thesis
    using account_lookup_outcomes [OF run 1 2, of "Inr ?acc" fresh]
      account_lookup_outcomes [OF run 1 2, of "Inl lookup_timeout" fresh] lookup 3 4
    by simp
qed

section \<open>Token extractor: properties\<close>

text \<open>The padding of lines 229 to 231 is the padding the specification describes, and
  it always reaches a multiple of four.\<close>

lemma pad_payload_restore: "pad_payload seg = restore_padding seg"
  by (simp add: pad_payload_def restore_padding_def Let_def)

lemma restore_padding_length: "length (restore_padding seg) mod 4 = 0"
  unfolding restore_padding_def by (simp add: mod_simps) presburger

text \<open>The try block on a string token, in terms of the decoding of its second segment.\<close>

lemma extract_email_body_claims:
  "extract_email_body e (PyStr t) s =
     (if length (split_on CHR ''.'' t) < 2 then (Inr (), s)
      else (case decode_claims e (split_on CHR ''.'' t ! 1) of
              Inl x \<Rightarrow> (Inl x, s)
            | Inr (PyDict kvs) \<Rightarrow> (Inr (), s\<lparr>user_email := dict_get kvs ''email'' PyNone\<rparr>)
            | Inr v \<Rightarrow> (Inl (attribute_error v ''get''), s)))"
  by (auto simp add: extract_email_body_def decode_claims_def pad_payload_restore Let_def
        split: sum.splits pyval.splits)

text \<open>The extractor changes the cached email and the trace only, and returns the
  email it leaves cached.\<close>

lemma extract_email_body_shape:
  "snd (extract_email_body e idt s) = s\<lparr>user_email := user_email (snd (extract_email_body e idt s))\<rparr>"
  by (simp add: extract_email_body_def Let_def split: pyval.splits sum.splits)

lemma extract_user_email_shape:
  "\<exists>u evs. snd (extract_user_email e s) = s\<lparr>user_email := u, trace := trace s @ evs\<rparr>"
proof (cases "truthy (user_email s) \<or> credentials s = None")
  case True
  then have "snd (extract_user_email e s) = s\<lparr>user_email := user_email s, trace := trace s @ []\<rparr>"
    by (auto simp add: extract_user_email_def)
  then show ?thesis by blast
next
  case False
  then obtain c where c: "credentials s = Some c" "\<not> truthy (user_email s)" by auto
  show ?thesis
  proof (cases "\<exists>idt. id_token c = Some idt \<and> truthy idt")
    case False
    then have "snd (extract_user_email e s) = s\<lparr>user_email := user_email s, trace := trace s @ []\<rparr>"
      using c by (auto simp add: extract_user_email_def split: option.splits)
    then show ?thesis by blast
  next
    case True
    then obtain idt where idt: "id_token c = Some idt" "truthy idt" by auto
    obtain r s' where b: "extract_email_body e idt s = (r, s')" by (cases "extract_email_body e idt s")
    then obtain em where s': "s' = s\<lparr>user_email := em\<rparr>"
      using extract_email_body_shape [of e idt s] by auto
    show ?thesis
    proof (cases r)
      case (Inl x)
      then have "snd (extract_user_email e s) =
          s\<lparr>user_email := em,
            trace := trace s @ [Log WARNING (''Failed to extract email from ID token: '' @ msg x)]\<rparr>"
        using c idt b by (simp add: extract_user_email_def log_def emit_def s')
      then show ?thesis by blast
    next
      case (Inr u)
      then have "snd (extract_user_email e s) = s\<lparr>user_email := em, trace := trace s @ []\<rparr>"
        using c idt b by (simp add: extract_user_email_def s')
      then show ?thesis by blast
    qed
  qed
qed

lemma extract_user_email_frame:
  "credentials (snd (extract_user_email e s)) = credentials s"
  "files (snd (extract_user_email e s)) = files s"
  "credentials_path (snd (extract_user_email e s)) = credentials_path s"
  "client_secrets_path (snd (extract_user_email e s)) = client_secrets_path s"
  using extract_user_email_shape [of e s] by auto

lemma extract_user_email_returns:
  "fst (extract_user_email e s) = Inr (user_email (snd (extract_user_email e s)))"
  by (auto simp add: extract_user_email_def Let_def)

text \<open>The email the extractor leaves cached, as a function of the email cached before
  and the identity token; extracting a second time from the same token changes nothing.\<close>

lemma extract_email_body_email:
  "user_email (snd (extract_email_body e idt s)) =
     (case token_email e idt of None \<Rightarrow> user_email s | Some v \<Rightarrow> v)"
proof (cases idt)
  case (PyStr t)
  show ?thesis
  proof (cases "decode_claims e (split_on CHR ''.'' t ! 1)")
    case (Inl x)
    then show ?thesis by (simp add: PyStr extract_email_body_claims token_email_def)
  next
    case (Inr v)
    then show ?thesis by (cases v) (simp_all add: PyStr extract_email_body_claims token_email_def)
  qed
qed (simp_all add: extract_email_body_def token_email_def)

lemma extract_user_email_email:
  assumes "credentials s = Some c"
  shows "user_email (snd (extract_user_email e s)) =
           cached_or_token_email e (user_email s) (getattr (id_token c) PyNone)"
proof (cases "id_token c")
  case None
  then show ?thesis
    using assms by (simp add: extract_user_email_def cached_or_token_email_def getattr_def)
next
  case (Some idt)
  obtain r s' where b: "extract_email_body e idt s = (r, s')" by (cases "extract_email_body e idt s")
  have "user_email s' = (case token_email e idt of None \<Rightarrow> user_email s | Some v \<Rightarrow> v)"
    using extract_email_body_email [of e idt s] b by simp
  then show ?thesis
    using assms Some b
    by (cases r) (simp_all add: extract_user_email_def cached_or_token_email_def getattr_def
          log_def emit_def)
qed

lemma cached_or_token_email_idem:
  "cached_or_token_email e (cached_or_token_email e cached idt) idt = cached_or_token_email e cached idt"
  by (simp add: cached_or_token_email_def split: option.splits)

lemma with_id_token_fields:
  "user_email (with_id_token t) = PyNone"
  "credentials (with_id_token t) =
     Some (OAuth2Credentials (PyStr ''ya29.a0'') (PyStr ''1//0g'') (PyStr t)
             DEFAULT_TOKEN_URI (PyStr ''cid'') (PyStr ''secret'') REQUIRED_SCOPES)"
  "id_token (OAuth2Credentials tok rtok idt uri cid csecret scp) = Some idt"
  by (simp_all add: with_id_token_def fresh_def GoogleCloudAuth_def OAuth2Credentials_def)

text \<open>
  Claim C5, as stated, fails: \<^verbatim>\<open>base64.urlsafe_b64decode\<close> does not validate its input
  but skips every character outside the alphabet. A token whose second segment holds
  a \<open>!\<close>, and so is not valid base64url, still decodes to the payload around it, and the
  token extractor returns the email of that payload instead of \<^verbatim>\<open>None\<close>.
\<close>

theorem extract_stray_char_counterexample:
  "\<not> valid_base64url (split_on CHR ''.'' stray_char_token ! 1)
   \<and> user_email (with_id_token stray_char_token) = PyNone
   \<and> fst (extract_user_email ref_env (with_id_token stray_char_token)) = Inr (PyStr ''a@b.co'')"
  by code_simp

text \<open>
  Claim C5, amended. With no cached email, an identity token that has fewer than two
  segments separated by dots, or for whose second segment the decoding raises (in the
  base64url decoder, the UTF-8 decoder or the JSON parser), or whose payload has no
  email field, makes the token extractor return \<^verbatim>\<open>None\<close>; it returns normally, without
  raising.
\<close>

theorem extract_malformed_token_absent:
  assumes "user_email s = PyNone"
    and "credentials s = Some c" and "id_token c = Some (PyStr t)"
    and "length (split_on CHR ''.'' t) < 2
         \<or> (\<exists>x. decode_claims e (split_on CHR ''.'' t ! 1) = Inl x)
         \<or> (\<exists>v. decode_claims e (split_on CHR ''.'' t ! 1) = Inr v \<and> email_claim v = None)"
  shows "fst (extract_user_email e s) = Inr PyNone"
proof -
  consider (short) "length (split_on CHR ''.'' t) < 2"
    | (failed) x where "decode_claims e (split_on CHR ''.'' t ! 1) = Inl x"
    | (no_email) v where "decode_claims e (split_on CHR ''.'' t ! 1) = Inr v" "email_claim v = None"
    using assms(4) by blast
  then have "token_email e (PyStr t) = None \<or> token_email e (PyStr t) = Some PyNone"
  proof cases
    case short
    then show ?thesis by (simp add: token_email_def)
  next
    case failed
    then show ?thesis by (simp add: token_email_def)
  next
    case no_email
    then show ?thesis
      by (cases v) (simp_all add: token_email_def email_claim_def dict_get_def)
  qed
  then have "cached_or_token_email e PyNone (PyStr t) = PyNone"
    by (auto simp add: cached_or_token_email_def)
  then show ?thesis
    using extract_user_email_email [OF assms(2), of e] extract_user_email_returns [of e s] assms(1,3)
    by (simp add: getattr_def)
qed

theorem extract_malformed_token_absent_witness:
  "fst (extract_user_email ref_env (with_id_token ''abcdef'')) = Inr PyNone
   \<and> fst (extract_user_email ref_env (with_id_token ''eyJhbGciOiJSUzI1NiJ9.a.c2ln'')) = Inr PyNone
   \<and> fst (extract_user_email ref_env (with_id_token ''eyJhbGciOiJSUzI1NiJ9.bm90IGpzb24.c2ln'')) = Inr PyNone
   \<and> fst (extract_user_email ref_env (with_id_token ''eyJhbGciOiJSUzI1NiJ9.eyJzdWIiOiIxMjMifQ.c2ln'')) = Inr PyNone"
proof -
  have 1: "length (split_on CHR ''.'' ''abcdef'') < 2" by code_simp
  have 2: "decode_claims ref_env (split_on CHR ''.'' ''eyJhbGciOiJSUzI1NiJ9.a.c2ln'' ! 1) =
             Inl (Exc (OtherError ''binascii.Error'') ''Invalid base64-encoded string'' None)"
    by code_simp
  have 3: "decode_claims ref_env (split_on CHR ''.'' ''eyJhbGciOiJSUzI1NiJ9.bm90IGpzb24.c2ln'' ! 1) =
             Inl (Exc JSONDecodeError ''Expecting value'' None)"
    by code_simp
  have 4: "decode_claims ref_env (split_on CHR ''.'' ''eyJhbGciOiJSUzI1NiJ9.eyJzdWIiOiIxMjMifQ.c2ln'' ! 1) =
             Inr (PyDict [(''sub'', PyStr ''123'')])"
    "email_claim (PyDict [(''sub'', PyStr ''123'')]) = None"
    by code_simp+
  note f = with_id_token_fields
  show ?thesis
    using extract_malformed_token_absent [OF f(1) f(2) f(3), of "''abcdef''" ref_env]
      extract_malformed_token_absent [OF f(1) f(2) f(3), of "''eyJhbGciOiJSUzI1NiJ9.a.c2ln''" ref_env]
      extract_malformed_token_absent [OF f(1) f(2) f(3), of "''eyJhbGciOiJSUzI1NiJ9.bm90IGpzb24.c2ln''" ref_env]
      extract_malformed_token_absent [OF f(1) f(2) f(3), of "''eyJhbGciOiJSUzI1NiJ9.eyJzdWIiOiIxMjMifQ.c2ln''" ref_env]
      1 2 3 4
    by blast
qed

text \<open>
  Claim C6. With no cached email, an identity token whose second segment, padded with
  \<^verbatim>\<open>=\<close> to a multiple of four characters, base64url-decodes to a JSON object with an
  email claim makes the token extractor return exactly the value of that claim, and
  cache it. This holds for every length of the segment, in particular for the lengths
  that are 0, 2 or 3 modulo 4.
\<close>

theorem extract_valid_token_email:
  assumes "user_email s = PyNone"
    and "credentials s = Some c" and "id_token c = Some (PyStr t)"
    and "2 \<le> length (split_on CHR ''.'' t)"
    and "decode_claims e (split_on CHR ''.'' t ! 1) = Inr v" and "email_claim v = Some email"
  shows "fst (extract_user_email e s) = Inr email \<and> user_email (snd (extract_user_email e s)) = email"
proof -
  have "t \<noteq> []"
    using assms(4) by (cases t) auto
  moreover have "token_email e (PyStr t) = Some email"
    using assms(4,5,6)
    by (cases v) (simp_all add: token_email_def email_claim_def dict_get_def)
  ultimately have "cached_or_token_email e PyNone (PyStr t) = email"
    by (simp add: cached_or_token_email_def)
  then show ?thesis
    using extract_user_email_email [OF assms(2), of e] extract_user_email_returns [of e s] assms(1,3)
    by (simp add: getattr_def)
qed

theorem extract_valid_token_email_witness:
  "length ''eyJlbWFpbCI6ImFAYi5jIn0'' mod 4 = (3::nat)
   \<and> fst (extract_user_email ref_env
        (with_id_token ''eyJhbGciOiJSUzI1NiJ9.eyJlbWFpbCI6ImFAYi5jIn0.c2ln'')) = Inr (PyStr ''a@b.c'')
   \<and> length ''eyJlbWFpbCI6ImFAYi5jbyJ9'' mod 4 = (0::nat)
   \<and> fst (extract_user_email ref_env
        (with_id_token ''eyJhbGciOiJSUzI1NiJ9.eyJlbWFpbCI6ImFAYi5jbyJ9.c2ln'')) = Inr (PyStr ''a@b.co'')
   \<and> length ''eyJlbWFpbCI6ImFAYi5jb20ifQ'' mod 4 = (2::nat)
   \<and> fst (extract_user_email ref_env
        (with_id_token ''eyJhbGciOiJSUzI1NiJ9.eyJlbWFpbCI6ImFAYi5jb20ifQ.c2ln'')) = Inr (PyStr ''a@b.com'')"
proof -
  let ?t3 = "''eyJhbGciOiJSUzI1NiJ9.eyJlbWFpbCI6ImFAYi5jIn0.c2ln''"
  let ?t0 = "''eyJhbGciOiJSUzI1NiJ9.eyJlbWFpbCI6ImFAYi5jbyJ9.c2ln''"
  let ?t2 = "''eyJhbGciOiJSUzI1NiJ9.eyJlbWFpbCI6ImFAYi5jb20ifQ.c2ln''"
  have l3: "2 \<le> length (split_on CHR ''.'' ?t3)" and l0: "2 \<le> length (split_on CHR ''.'' ?t0)"
    and l2: "2 \<le> length (split_on CHR ''.'' ?t2)"
    by code_simp+
  have d3: "decode_claims ref_env (split_on CHR ''.'' ?t3 ! 1) = Inr (PyDict [(''email'', PyStr ''a@b.c'')])"
    by code_simp
  have d0: "decode_claims ref_env (split_on CHR ''.'' ?t0 ! 1) = Inr (PyDict [(''email'', PyStr ''a@b.co'')])"
    by code_simp
  have d2: "decode_claims ref_env (split_on CHR ''.'' ?t2 ! 1) = Inr (PyDict [(''email'', PyStr ''a@b.com'')])"
    by code_simp
  have c: "\<And>v. email_claim (PyDict [(''email'', v)]) = Some v"
    by (simp add: email_claim_def)
  note f = with_id_token_fields
  show ?thesis
    using extract_valid_token_email [OF f(1) f(2) f(3) l3 d3 c]
      extract_valid_token_email [OF f(1) f(2) f(3) l0 d0 c]
      extract_valid_token_email [OF f(1) f(2) f(3) l2 d2 c]
    by simp
qed

section \<open>Credential store: properties\<close>

text \<open>
  Claim C2, as stated, fails: a credential file holding the JSON object \<^verbatim>\<open>{}\<close>, which
  has none of the keys, is loaded, and the load operation returns \<^verbatim>\<open>True\<close>.
\<close>

theorem load_empty_object_counterexample:
  "fst (load_stored_credentials ref_env (with_cred_file ''{}'')) = Inr True"
  by code_simp

text \<open>
  Claim C2, amended. When the credential file is missing, or can be opened and its
  contents make \<^verbatim>\<open>json.load\<close> raise \<^verbatim>\<open>JSONDecodeError\<close>, the load operation returns
  \<^verbatim>\<open>False\<close> without raising and leaves the credentials and the cached email of the
  manager as they were. When the file can be opened and holds a JSON object, the load
  operation returns \<^verbatim>\<open>True\<close> whichever keys the object has: a key that is missing
  loads as \<^verbatim>\<open>None\<close>, and \<^verbatim>\<open>token_uri\<close> and \<^verbatim>\<open>scopes\<close> as their defaults.
\<close>

theorem load_outcomes:
  "(files s (credentials_path s) = None \<longrightarrow>
      fst (load_stored_credentials e s) = Inr False
      \<and> credentials (snd (load_stored_credentials e s)) = credentials s
      \<and> user_email (snd (load_stored_credentials e s)) = user_email s)
   \<and> (\<forall>f x. files s (credentials_path s) = Some f \<and> open_read_error e (credentials_path s) = None
          \<and> json_load e (content f) = Inl x \<and> cls x = JSONDecodeError \<longrightarrow>
      fst (load_stored_credentials e s) = Inr False
      \<and> credentials (snd (load_stored_credentials e s)) = credentials s
      \<and> user_email (snd (load_stored_credentials e s)) = user_email s)
   \<and> (\<forall>f kvs. files s (credentials_path s) = Some f \<and> open_read_error e (credentials_path s) = None
          \<and> json_load e (content f) = Inr (PyDict kvs) \<longrightarrow>
      fst (load_stored_credentials e s) = Inr True
      \<and> credentials (snd (load_stored_credentials e s)) =
          Some (OAuth2Credentials
                  (dict_get kvs ''token'' PyNone)
                  (dict_get kvs ''refresh_token'' PyNone)
                  (dict_get kvs ''id_token'' PyNone)
                  (dict_get kvs ''token_uri'' DEFAULT_TOKEN_URI)
                  (dict_get kvs ''client_id'' PyNone)
                  (dict_get kvs ''client_secret'' PyNone)
                  (dict_get kvs ''scopes'' REQUIRED_SCOPES))
      \<and> user_email (snd (load_stored_credentials e s)) = dict_get kvs ''user_email'' PyNone)"
  by (auto simp add: load_stored_credentials_def load_body_def open_read_def Let_def log_def
        emit_def isinstance_def)

lemma with_cred_file_fields:
  "credentials_path (with_cred_file txt) = ''/home/u/.gcphcp/credentials.json''"
  "files (with_cred_file txt) ''/home/u/.gcphcp/credentials.json'' = Some \<lparr>content = txt, mode = S_600\<rparr>"
  "credentials (with_cred_file txt) = None"
  "user_email (with_cred_file txt) = PyNone"
  by (simp_all add: with_cred_file_def fresh_def GoogleCloudAuth_def DEFAULT_CREDENTIALS_PATH_def)

theorem load_outcomes_witness:
  "fst (load_stored_credentials ref_env fresh) = Inr False
   \<and> fst (load_stored_credentials ref_env (with_cred_file ''not json'')) = Inr False
   \<and> credentials (snd (load_stored_credentials ref_env (with_cred_file ''not json''))) = None
   \<and> fst (load_stored_credentials ref_env (with_cred_file ''{}'')) = Inr True
   \<and> credentials (snd (load_stored_credentials ref_env (with_cred_file ''{}''))) =
       Some (OAuth2Credentials PyNone PyNone PyNone DEFAULT_TOKEN_URI PyNone PyNone REQUIRED_SCOPES)
   \<and> user_email (snd (load_stored_credentials ref_env (with_cred_file ''{}''))) = PyNone"
proof -
  have 1: "files fresh (credentials_path fresh) = None"
    by (simp add: fresh_def GoogleCloudAuth_def)
  have 2: "open_read_error ref_env p = None" for p
    by (simp add: ref_env_def)
  have 3: "json_load ref_env ''not json'' = Inl (Exc JSONDecodeError ''Expecting value'' None)"
    by code_simp
  have 4: "json_load ref_env ''{}'' = Inr (PyDict [])"
    by code_simp
  show ?thesis
    using load_outcomes [of fresh ref_env] load_outcomes [of "with_cred_file ''not json''" ref_env]
      load_outcomes [of "with_cred_file ''{}''" ref_env] 1 2 3 4
    by (simp add: with_cred_file_fields dict_get_def)
qed

text \<open>A file holding JSON that is not an object leaves the handler of line 140: the
  \<^verbatim>\<open>AttributeError\<close> of the first \<^verbatim>\<open>get\<close> is none of its three classes.\<close>

lemma load_json_array_raises:
  "fst (load_stored_credentials ref_env (with_cred_file ''[]'')) =
     Inl (attribute_error (PyList []) ''get'')"
  by code_simp

text \<open>The whole effect of loading a file that holds a JSON object.\<close>

lemma load_json_object:
  assumes "files s (credentials_path s) = Some f" and "open_read_error e (credentials_path s) = None"
    and "json_load e (content f) = Inr (PyDict kvs)"
  shows "load_stored_credentials e s =
     (Inr True,
      s\<lparr>credentials :=
           Some (OAuth2Credentials
                  (dict_get kvs ''token'' PyNone)
                  (dict_get kvs ''refresh_token'' PyNone)
                  (dict_get kvs ''id_token'' PyNone)
                  (dict_get kvs ''token_uri'' DEFAULT_TOKEN_URI)
                  (dict_get kvs ''client_id'' PyNone)
                  (dict_get kvs ''client_secret'' PyNone)
                  (dict_get kvs ''scopes'' REQUIRED_SCOPES)),
         user_email := dict_get kvs ''user_email'' PyNone,
         trace := trace s @ [Exists (credentials_path s), OpenRead (credentials_path s),
                    Log DEBUG ''Successfully loaded stored credentials'']\<rparr>)"
  using assms
  by (simp add: load_stored_credentials_def load_body_def open_read_def Let_def log_def emit_def)

text \<open>The save operation, case by case: a refused \<^verbatim>\<open>mkdir\<close> leaves the method, and
  after it the \<^verbatim>\<open>try\<close> block decides what is written and logged.\<close>

lemma before_write_frame:
  "credentials (before_write e s) = credentials s"
  "files (before_write e s) = files s"
  "credentials_path (before_write e s) = credentials_path s"
  "client_secrets_path (before_write e s) = client_secrets_path s"
  by (simp_all add: before_write_def extract_user_email_frame emit_def)

lemma before_write_trace:
  "\<exists>evs. trace (before_write e s) = trace s @ Mkdir (parent (credentials_path s)) # evs"
  using extract_user_email_shape [of e "emit (Mkdir (parent (credentials_path s))) s"]
  by (auto simp add: before_write_def emit_def)

lemma save_credentials_mkdir_refused:
  assumes "credentials s = Some c" and "mkdir_error e (parent (credentials_path s)) = Some x"
  shows "save_credentials e s = (Inl x, emit (Mkdir (parent (credentials_path s))) s)"
  using assms by (simp add: save_credentials_def mkdir_parents_def)

lemma save_credentials_written:
  assumes "credentials s = Some c" and "mkdir_error e (parent (credentials_path s)) = None"
  shows "save_credentials e s =
     (Inr (),
      (case save_body e (cred_data_of c (user_email (before_write e s))) (before_write e s) of
         (Inr u, s3) \<Rightarrow> s3
       | (Inl x, s3) \<Rightarrow> log WARNING (''Failed to save credentials: '' @ msg x) s3))"
proof -
  obtain r s2 where x: "extract_user_email e (emit (Mkdir (parent (credentials_path s))) s) = (r, s2)"
    by (cases "extract_user_email e (emit (Mkdir (parent (credentials_path s))) s)")
  have s2: "s2 = before_write e s" using x by (simp add: before_write_def)
  have r: "r = Inr (user_email s2)" using x extract_user_email_returns [of e "emit (Mkdir (parent (credentials_path s))) s"] by simp
  have c: "credentials s2 = Some c" using assms(1) s2 by (simp add: before_write_frame)
  show ?thesis
    using assms x c unfolding r s2 [symmetric]
    by (simp add: save_credentials_def mkdir_parents_def split: prod.splits sum.splits)
qed

lemma save_body_cases:
  "save_body e d s =
     (case open_write_error e (credentials_path s) of
        Some x \<Rightarrow> (Inl x, s\<lparr>trace := trace s @ [OpenWrite (credentials_path s)]\<rparr>)
      | None \<Rightarrow>
          (case chmod_error e (credentials_path s) of
             Some x \<Rightarrow>
               (Inl x,
                s\<lparr>files := (files s)(credentials_path s \<mapsto>
                      \<lparr>content = json_dump e d,
                       mode = (case files s (credentials_path s) of
                                 None \<Rightarrow> create_mode e | Some f \<Rightarrow> mode f)\<rparr>),
                  trace := trace s @ [OpenWrite (credentials_path s), Chmod (credentials_path s) S_600]\<rparr>)
           | None \<Rightarrow>
               (Inr (),
                s\<lparr>files := (files s)(credentials_path s \<mapsto> \<lparr>content = json_dump e d, mode = S_600\<rparr>),
                  trace := trace s @ [OpenWrite (credentials_path s), Chmod (credentials_path s) S_600,
                     Log DEBUG (''Saved credentials to '' @ credentials_path s)]\<rparr>)))"
  by (simp add: save_body_def open_write_def os_chmod_def Let_def log_def emit_def
        split: option.splits)

lemma save_credentials_saved:
  assumes "credentials s = Some c" and "mkdir_error e (parent (credentials_path s)) = None"
    and "open_write_error e (credentials_path s) = None"
    and "chmod_error e (credentials_path s) = None"
  shows "save_credentials e s =
     (Inr (),
      (before_write e s)
        \<lparr>files := (files s)(credentials_path s \<mapsto>
             \<lparr>content = json_dump e (cred_data_of c (user_email (before_write e s))), mode = S_600\<rparr>),
         trace := trace (before_write e s) @
             [OpenWrite (credentials_path s), Chmod (credentials_path s) S_600,
              Log DEBUG (''Saved credentials to '' @ credentials_path s)]\<rparr>)"
  using assms
  by (simp add: save_credentials_written [OF assms(1,2)] save_body_cases before_write_frame)

lemma save_credentials_not_saved:
  assumes "credentials s = Some c"
    and "mkdir_error e (parent (credentials_path s)) \<noteq> None
         \<or> open_write_error e (credentials_path s) \<noteq> None
         \<or> chmod_error e (credentials_path s) \<noteq> None"
  shows "trace (snd (save_credentials e s)) \<noteq> [] \<and>
         last (trace (snd (save_credentials e s))) \<noteq>
           Log DEBUG (''Saved credentials to '' @ credentials_path s)"
proof (cases "mkdir_error e (parent (credentials_path s))")
  case (Some x)
  then show ?thesis
    using assms(1) by (simp add: save_credentials_mkdir_refused emit_def)
next
  case None
  then show ?thesis
    using assms
    by (auto simp add: save_credentials_written save_body_cases before_write_frame log_def emit_def
          split: option.splits)
qed

text \<open>
  Claim C9. When a save of a Credential Record succeeds, that is, the last thing the
  save did is the log record of line 272, the credential file exists with mode
  \<^verbatim>\<open>0o600\<close>, so none of the permission bits of group and others is set, and the
  \<^verbatim>\<open>chmod\<close> is the operation that follows the write immediately.
\<close>

theorem save_restricts_permissions:
  assumes "credentials s = Some c"
    and "save_credentials e s = (r, s')"
    and "trace s' = trace s @ evs @ [Log DEBUG (''Saved credentials to '' @ credentials_path s)]"
  shows "\<exists>f evs'. files s' (credentials_path s) = Some f \<and> mode f = S_600
           \<and> group_other_bits (mode f) = 0
           \<and> evs = evs' @ [OpenWrite (credentials_path s), Chmod (credentials_path s) S_600]"
proof -
  have ok: "mkdir_error e (parent (credentials_path s)) = None"
    "open_write_error e (credentials_path s) = None"
    "chmod_error e (credentials_path s) = None"
  proof -
    have l: "last (trace (snd (save_credentials e s))) =
               Log DEBUG (''Saved credentials to '' @ credentials_path s)"
      using assms(2,3) by simp
    have "\<not> (mkdir_error e (parent (credentials_path s)) \<noteq> None
         \<or> open_write_error e (credentials_path s) \<noteq> None
         \<or> chmod_error e (credentials_path s) \<noteq> None)"
      using save_credentials_not_saved [OF assms(1), of e] l by blast
    then show "mkdir_error e (parent (credentials_path s)) = None"
      "open_write_error e (credentials_path s) = None"
      "chmod_error e (credentials_path s) = None"
      by simp_all
  qed
  obtain evs0 where evs0: "trace (before_write e s) = trace s @ Mkdir (parent (credentials_path s)) # evs0"
    using before_write_trace by blast
  have s': "s' = (before_write e s)
        \<lparr>files := (files s)(credentials_path s \<mapsto>
             \<lparr>content = json_dump e (cred_data_of c (user_email (before_write e s))), mode = S_600\<rparr>),
         trace := trace (before_write e s) @
             [OpenWrite (credentials_path s), Chmod (credentials_path s) S_600,
              Log DEBUG (''Saved credentials to '' @ credentials_path s)]\<rparr>"
    using save_credentials_saved [OF assms(1) ok] assms(2) by simp
  have "evs = (Mkdir (parent (credentials_path s)) # evs0) @
          [OpenWrite (credentials_path s), Chmod (credentials_path s) S_600]"
    using assms(3) unfolding s' by (simp add: evs0)
  then show ?thesis
    unfolding s' by (simp add: S_600_def group_other_bits_def)
qed

theorem save_restricts_permissions_witness:
  "\<exists>f. files (snd (save_credentials ref_env (with_id_token sample_token)))
          ''/home/u/.gcphcp/credentials.json'' = Some f
       \<and> mode f = S_600 \<and> group_other_bits (mode f) = 0"
proof -
  let ?s = "with_id_token sample_token"
  have p: "credentials_path ?s = ''/home/u/.gcphcp/credentials.json''"
    by (simp add: with_id_token_def fresh_def GoogleCloudAuth_def DEFAULT_CREDENTIALS_PATH_def)
  have t: "trace (snd (save_credentials ref_env ?s)) =
             trace ?s @ [Mkdir ''/home/u/.gcphcp'', OpenWrite ''/home/u/.gcphcp/credentials.json'',
               Chmod ''/home/u/.gcphcp/credentials.json'' S_600] @
             [Log DEBUG (''Saved credentials to '' @ credentials_path ?s)]"
    by code_simp
  show ?thesis
    using save_restricts_permissions [OF with_id_token_fields(2) prod.collapse [symmetric] t]
    by (auto simp add: p)
qed

text \<open>
  Claim C7. Take any Credential Record held by the manager. When the operating system
  accepts the file operations and \<^verbatim>\<open>json.load\<close> reads back what \<^verbatim>\<open>json.dump\<close> wrote for
  the record, saving and then loading (in the same manager or a new one, whatever it
  holds in memory) returns \<^verbatim>\<open>True\<close> and reproduces the token, the refresh token, the
  identity token, the scope list (as the same list, so in any order), the client id,
  the client secret and the token URI, each as \<^verbatim>\<open>getattr\<close> gave it to the save, and
  the user email the save resolved: it is the cached email after the load and the
  email the extractor resolves again.
\<close>

theorem save_load_round_trip:
  assumes "credentials s = Some c"
    and "mkdir_error e (parent (credentials_path s)) = None"
    and "open_write_error e (credentials_path s) = None"
    and "chmod_error e (credentials_path s) = None"
    and "open_read_error e (credentials_path s) = None"
    and "fst (extract_user_email e s) = Inr email"
    and "json_load e (json_dump e (cred_data_of c email)) = Inr (cred_data_of c email)"
    and "save_credentials e s = (r, s1)"
    and "load_stored_credentials e (s1\<lparr>credentials := c0, user_email := u0\<rparr>) = (b, s2)"
  shows "b = Inr True
       \<and> (\<exists>c'. credentials s2 = Some c'
            \<and> token c' = token c
            \<and> getattr (refresh_token c') PyNone = getattr (refresh_token c) PyNone
            \<and> getattr (id_token c') PyNone = getattr (id_token c) PyNone
            \<and> getattr (scopes c') REQUIRED_SCOPES = getattr (scopes c) REQUIRED_SCOPES
            \<and> getattr (client_id c') PyNone = getattr (client_id c) PyNone
            \<and> getattr (client_secret c') PyNone = getattr (client_secret c) PyNone
            \<and> getattr (token_uri c') DEFAULT_TOKEN_URI = getattr (token_uri c) DEFAULT_TOKEN_URI)
       \<and> user_email s2 = email
       \<and> fst (extract_user_email e s2) = Inr email"
proof -
  let ?idt = "getattr (id_token c) PyNone"
  have em: "email = cached_or_token_email e (user_email s) ?idt"
    using assms(6) extract_user_email_returns [of e s] extract_user_email_email [OF assms(1), of e]
    by simp
  have bw: "user_email (before_write e s) = email"
    using extract_user_email_email [of "emit (Mkdir (parent (credentials_path s))) s" c e] assms(1)
    by (simp add: before_write_def em emit_def)
  have s1: "s1 = (before_write e s)
        \<lparr>files := (files s)(credentials_path s \<mapsto>
             \<lparr>content = json_dump e (cred_data_of c email), mode = S_600\<rparr>),
         trace := trace (before_write e s) @
             [OpenWrite (credentials_path s), Chmod (credentials_path s) S_600,
              Log DEBUG (''Saved credentials to '' @ credentials_path s)]\<rparr>"
    using save_credentials_saved [OF assms(1,2,3,4)] assms(8) by (simp add: bw)
  let ?c' = "OAuth2Credentials (token c) (getattr (refresh_token c) PyNone) ?idt
               (getattr (token_uri c) DEFAULT_TOKEN_URI) (getattr (client_id c) PyNone)
               (getattr (client_secret c) PyNone) (getattr (scopes c) REQUIRED_SCOPES)"
  have l: "b = Inr True \<and> credentials s2 = Some ?c' \<and> user_email s2 = email"
  proof -
    let ?s1 = "s1\<lparr>credentials := c0, user_email := u0\<rparr>"
    let ?f = "\<lparr>content = json_dump e (cred_data_of c email), mode = S_600\<rparr>"
    have p: "credentials_path ?s1 = credentials_path s"
      by (simp add: s1 before_write_frame)
    have f: "files ?s1 (credentials_path ?s1) = Some ?f"
      by (simp add: s1 before_write_frame)
    have o: "open_read_error e (credentials_path ?s1) = None"
      using assms(5) by (simp add: p)
    have j: "json_load e (content ?f) =
        Inr (PyDict
           [(''token'', token c),
            (''refresh_token'', getattr (refresh_token c) PyNone),
            (''id_token'', getattr (id_token c) PyNone),
            (''client_id'', getattr (client_id c) PyNone),
            (''client_secret'', getattr (client_secret c) PyNone),
            (''token_uri'', getattr (token_uri c) DEFAULT_TOKEN_URI),
            (''scopes'', getattr (scopes c) REQUIRED_SCOPES),
            (''user_email'', email)])"
      using assms(7) by (simp add: cred_data_of_def)
    show ?thesis
      using load_json_object [OF f o j] assms(9) by (auto simp add: dict_get_def)
  qed
  have "user_email (snd (extract_user_email e s2)) = cached_or_token_email e email ?idt"
    using extract_user_email_email [of s2 ?c' e] l by (simp add: OAuth2Credentials_def getattr_def)
  then have again: "fst (extract_user_email e s2) = Inr email"
    using extract_user_email_returns [of e s2] by (simp add: em cached_or_token_email_idem)
  show ?thesis
    using l again by (simp add: OAuth2Credentials_def getattr_def)
qed

theorem save_load_round_trip_witness:
  "fst (load_stored_credentials ref_env
          ((snd (save_credentials ref_env (with_id_token sample_token)))
             \<lparr>credentials := None, user_email := PyNone\<rparr>)) = Inr True
   \<and> user_email (snd (load_stored_credentials ref_env
          ((snd (save_credentials ref_env (with_id_token sample_token)))
             \<lparr>credentials := None, user_email := PyNone\<rparr>))) = PyStr ''a@b.c''
   \<and> (\<exists>c'. credentials (snd (load_stored_credentials ref_env
          ((snd (save_credentials ref_env (with_id_token sample_token)))
             \<lparr>credentials := None, user_email := PyNone\<rparr>))) = Some c'
         \<and> token c' = PyStr ''ya29.a0''
         \<and> getattr (refresh_token c') PyNone = PyStr ''1//0g''
         \<and> getattr (id_token c') PyNone = PyStr sample_token
         \<and> getattr (scopes c') REQUIRED_SCOPES = REQUIRED_SCOPES)"
proof -
  let ?s = "with_id_token sample_token"
  let ?c = "OAuth2Credentials (PyStr ''ya29.a0'') (PyStr ''1//0g'') (PyStr sample_token)
             DEFAULT_TOKEN_URI (PyStr ''cid'') (PyStr ''secret'') REQUIRED_SCOPES"
  have 1: "mkdir_error ref_env p = None" "open_write_error ref_env p = None"
    "chmod_error ref_env p = None" "open_read_error ref_env p = None" for p
    by (simp_all add: ref_env_def)
  have 2: "fst (extract_user_email ref_env ?s) = Inr (PyStr ''a@b.c'')"
    by code_simp
  have 3: "json_load ref_env (json_dump ref_env (cred_data_of ?c (PyStr ''a@b.c''))) =
             Inr (cred_data_of ?c (PyStr ''a@b.c''))"
    by code_simp
  show ?thesis
    using save_load_round_trip [OF with_id_token_fields(2) 1 2 3
        prod.collapse [symmetric] prod.collapse [symmetric], where ?c0.0 = None and ?u0.0 = PyNone]
    by (auto simp add: OAuth2Credentials_def getattr_def)
qed

section \<open>OAuth flow runner: properties\<close>

text \<open>
  Claim C3, as stated, fails: a run of the OAuth flow runner through the ambient
  branch succeeds and returns with the ambient credentials in memory, without the save
  operation: no file operation is in the trace and the credential file does not exist
  afterwards.
\<close>

theorem ambient_branch_counterexample:
  "fst (perform_oauth_flow env_ambient fresh) = Inr ()
   \<and> credentials (snd (perform_oauth_flow env_ambient fresh)) = Some ambient_creds
   \<and> files (snd (perform_oauth_flow env_ambient fresh)) ''/home/u/.gcphcp/credentials.json'' = None
   \<and> trace (snd (perform_oauth_flow env_ambient fresh)) =
       [GoogleAuthDefault, Log INFO ''Using application default credentials'']"
  by code_simp

lemma perform_oauth_flow_interactive:
  assumes "client_secrets_path s = Some p" and "files s p \<noteq> None"
    and "from_client_secrets_file e p REQUIRED_SCOPES = Inr fl" and "run_local_server fl = Inr c"
  shows "perform_oauth_flow e s =
     (case save_credentials e (after_consent p c s) of
        (Inr u, s') \<Rightarrow> (Inr (), s')
      | (Inl x, s') \<Rightarrow> (Inl (Exc AuthenticationError (''OAuth flow failed: '' @ msg x) (Some x)), s'))"
proof -
  have "log INFO ''OAuth flow completed successfully''
          (emit RunLocalServer (emit (FromClientSecretsFile p) (emit (Exists p) s))\<lparr>credentials := Some c\<rparr>)
        = after_consent p c s"
    by (simp add: after_consent_def log_def emit_def)
  then show ?thesis
    using assms by (auto simp add: perform_oauth_flow_def oauth_flow_body_def Let_def)
qed

lemma perform_oauth_flow_ambient:
  assumes "client_secrets_path s = None \<or> (\<exists>p. client_secrets_path s = Some p \<and> files s p = None)"
    and "google_auth_default e REQUIRED_SCOPES = Inr c"
  shows "perform_oauth_flow e s =
     (Inr (), s\<lparr>credentials := Some c,
               trace := trace s @ (case client_secrets_path s of None \<Rightarrow> [] | Some p \<Rightarrow> [Exists p]) @
                  [GoogleAuthDefault, Log INFO ''Using application default credentials'']\<rparr>)"
  using assms
  by (auto simp add: perform_oauth_flow_def ambient_credentials_def Let_def log_def emit_def)

text \<open>
  Claim C3, amended. Every successful run of the interactive authorization-code
  branch applies the save operation of the credential store to the new credentials
  before it returns: the directory of the credential file is made right after the
  flow completes, and unless the operating system refuses the write or the \<^verbatim>\<open>chmod\<close>
  (which the save logs and drops) the credential file holds the serialised record
  with mode \<^verbatim>\<open>0o600\<close>. A run of the ambient branch that finds default credentials
  succeeds with them in memory and returns without the save operation, leaving every
  file as it was.
\<close>

theorem oauth_flow_persistence:
  "(\<forall>p fl c. client_secrets_path s = Some p \<and> files s p \<noteq> None
        \<and> from_client_secrets_file e p REQUIRED_SCOPES = Inr fl \<and> run_local_server fl = Inr c
        \<and> fst (perform_oauth_flow e s) = Inr () \<longrightarrow>
      credentials (snd (perform_oauth_flow e s)) = Some c
      \<and> (\<exists>evs. trace (snd (perform_oauth_flow e s)) =
                 trace s @ [Exists p, FromClientSecretsFile p, RunLocalServer,
                   Log INFO ''OAuth flow completed successfully'',
                   Mkdir (parent (credentials_path s))] @ evs)
      \<and> (open_write_error e (credentials_path s) = None \<and> chmod_error e (credentials_path s) = None \<longrightarrow>
           files (snd (perform_oauth_flow e s)) (credentials_path s) =
             Some \<lparr>content = json_dump e (cred_data_of c (user_email (snd (perform_oauth_flow e s)))),
                   mode = S_600\<rparr>))
   \<and> (\<forall>c. (client_secrets_path s = None \<or> (\<exists>p. client_secrets_path s = Some p \<and> files s p = None))
        \<and> google_auth_default e REQUIRED_SCOPES = Inr c \<longrightarrow>
      fst (perform_oauth_flow e s) = Inr ()
      \<and> credentials (snd (perform_oauth_flow e s)) = Some c
      \<and> files (snd (perform_oauth_flow e s)) = files s
      \<and> trace (snd (perform_oauth_flow e s)) =
          trace s @ (case client_secrets_path s of None \<Rightarrow> [] | Some p \<Rightarrow> [Exists p]) @
            [GoogleAuthDefault, Log INFO ''Using application default credentials''])"
proof (intro conjI allI impI)
  fix c
  assume a: "(client_secrets_path s = None \<or> (\<exists>p. client_secrets_path s = Some p \<and> files s p = None))
        \<and> google_auth_default e REQUIRED_SCOPES = Inr c"
  note r = perform_oauth_flow_ambient [of s e c]
  show "fst (perform_oauth_flow e s) = Inr ()" using a by (simp add: r)
  show "credentials (snd (perform_oauth_flow e s)) = Some c" using a by (simp add: r)
  show "files (snd (perform_oauth_flow e s)) = files s" using a by (simp add: r)
  show "trace (snd (perform_oauth_flow e s)) =
          trace s @ (case client_secrets_path s of None \<Rightarrow> [] | Some p \<Rightarrow> [Exists p]) @
            [GoogleAuthDefault, Log INFO ''Using application default credentials'']"
    using a by (simp add: r)
next
  fix p fl c
  assume a: "client_secrets_path s = Some p \<and> files s p \<noteq> None
        \<and> from_client_secrets_file e p REQUIRED_SCOPES = Inr fl \<and> run_local_server fl = Inr c
        \<and> fst (perform_oauth_flow e s) = Inr ()"
  let ?s = "after_consent p c s"
  have r: "perform_oauth_flow e s =
     (case save_credentials e ?s of
        (Inr u, s') \<Rightarrow> (Inr (), s')
      | (Inl x, s') \<Rightarrow> (Inl (Exc AuthenticationError (''OAuth flow failed: '' @ msg x) (Some x)), s'))"
    using a perform_oauth_flow_interactive by blast
  have c: "credentials ?s = Some c" and pth: "credentials_path ?s = credentials_path s"
    and fs: "files ?s = files s"
    by (simp_all add: after_consent_def)
  have mk: "mkdir_error e (parent (credentials_path ?s)) = None"
  proof (rule ccontr)
    assume "mkdir_error e (parent (credentials_path ?s)) \<noteq> None"
    then obtain x where "mkdir_error e (parent (credentials_path ?s)) = Some x" by auto
    then have "fst (perform_oauth_flow e s) \<noteq> Inr ()"
      using save_credentials_mkdir_refused [OF c] by (simp add: r)
    then show False using a by simp
  qed
  have tr: "trace ?s = trace s @ [Exists p, FromClientSecretsFile p, RunLocalServer,
                  Log INFO ''OAuth flow completed successfully'']"
    by (simp add: after_consent_def)
  have r2: "snd (perform_oauth_flow e s) =
      (case save_body e (cred_data_of c (user_email (before_write e ?s))) (before_write e ?s) of
         (Inr u, s3) \<Rightarrow> s3
       | (Inl x, s3) \<Rightarrow> log WARNING (''Failed to save credentials: '' @ msg x) s3)"
    by (simp add: r save_credentials_written [OF c mk])
  obtain evs0 where evs0: "trace (before_write e ?s) =
      trace s @ [Exists p, FromClientSecretsFile p, RunLocalServer,
         Log INFO ''OAuth flow completed successfully'', Mkdir (parent (credentials_path s))] @ evs0"
    using before_write_trace [of e ?s] by (auto simp add: tr pth)
  note bw = before_write_frame [of e ?s]
  show "credentials (snd (perform_oauth_flow e s)) = Some c"
    by (simp add: r2 save_body_cases bw c log_def emit_def split: option.splits)
  show "\<exists>evs. trace (snd (perform_oauth_flow e s)) =
                 trace s @ [Exists p, FromClientSecretsFile p, RunLocalServer,
                   Log INFO ''OAuth flow completed successfully'',
                   Mkdir (parent (credentials_path s))] @ evs"
    by (simp add: r2 save_body_cases bw evs0 log_def emit_def split: option.splits)
  show "files (snd (perform_oauth_flow e s)) (credentials_path s) =
             Some \<lparr>content = json_dump e (cred_data_of c (user_email (snd (perform_oauth_flow e s)))),
                   mode = S_600\<rparr>"
    if "open_write_error e (credentials_path s) = None \<and> chmod_error e (credentials_path s) = None"
    using that by (simp add: r2 save_body_cases bw pth)
qed

theorem oauth_flow_persistence_witness:
  "fst (perform_oauth_flow env_consent with_client_secrets) = Inr ()
   \<and> files (snd (perform_oauth_flow env_consent with_client_secrets))
        ''/home/u/.gcphcp/credentials.json'' =
      Some \<lparr>content = ref_json_dump (cred_data_of consent_creds (PyStr ''a@b.c'')), mode = S_600\<rparr>
   \<and> fst (perform_oauth_flow env_ambient fresh) = Inr ()
   \<and> credentials (snd (perform_oauth_flow env_ambient fresh)) = Some ambient_creds
   \<and> files (snd (perform_oauth_flow env_ambient fresh)) = files fresh"
proof -
  let ?s = with_client_secrets
  have 1: "client_secrets_path ?s = Some ''/home/u/client_secret.json''"
    "files ?s ''/home/u/client_secret.json'' \<noteq> None"
    "credentials_path ?s = ''/home/u/.gcphcp/credentials.json''"
    by (simp_all add: with_client_secrets_def GoogleCloudAuth_def DEFAULT_CREDENTIALS_PATH_def)
  have 2: "from_client_secrets_file env_consent ''/home/u/client_secret.json'' REQUIRED_SCOPES =
             Inr (Flow (Inr consent_creds))"
    "run_local_server (Flow (Inr consent_creds)) = Inr consent_creds"
    "open_write_error env_consent ''/home/u/.gcphcp/credentials.json'' = None"
    "chmod_error env_consent ''/home/u/.gcphcp/credentials.json'' = None"
    "json_dump env_consent = ref_json_dump"
    by (simp_all add: env_consent_def ref_env_def)
  have 3: "fst (perform_oauth_flow env_consent ?s) = Inr ()"
    "user_email (snd (perform_oauth_flow env_consent ?s)) = PyStr ''a@b.c''"
    by code_simp+
  have 4: "client_secrets_path fresh = None"
    "google_auth_default env_ambient REQUIRED_SCOPES = Inr ambient_creds"
    by (simp_all add: fresh_def GoogleCloudAuth_def env_ambient_def)
  have a: "files (snd (perform_oauth_flow env_consent ?s)) ''/home/u/.gcphcp/credentials.json'' =
      Some \<lparr>content = ref_json_dump (cred_data_of consent_creds (PyStr ''a@b.c'')), mode = S_600\<rparr>"
    using oauth_flow_persistence [of ?s env_consent] 1 2 3 by auto
  have b: "fst (perform_oauth_flow env_ambient fresh) = Inr ()
      \<and> credentials (snd (perform_oauth_flow env_ambient fresh)) = Some ambient_creds
      \<and> files (snd (perform_oauth_flow env_ambient fresh)) = files fresh"
    using oauth_flow_persistence [of fresh env_ambient] 4 by auto
  show ?thesis using 3(1) a b by simp
qed

section \<open>Auth manager: properties\<close>

text \<open>
  Claim C1. When the token call exits with code 0 and output \<^verbatim>\<open>abc.def\<close> and the account
  lookup exits with code 0 and output \<^verbatim>\<open>user@example.com\<close>, \<^verbatim>\<open>authenticate\<close> returns the
  pair of the two, whatever \<open>force_reauth\<close> is. The state it leaves differs from the
  one it started in by four trace events only, two log records and the two subprocess
  calls: no file is looked for or read, no OAuth flow and no refresh is run, and the
  fields of the manager are untouched.
\<close>

theorem authenticate_external_tool_success:
  assumes "run e token_cmd 30 = Inr \<lparr>returncode = 0, stdout = ''abc.def'', stderr = err1\<rparr>"
    and "run e email_cmd 10 = Inr \<lparr>returncode = 0, stdout = ''user@example.com'', stderr = err2\<rparr>"
  shows "authenticate e force_reauth s =
           (Inr (PyStr ''abc.def'', PyStr ''user@example.com''),
            s\<lparr>trace := trace s @
                 [Log DEBUG ''Running command: gcloud auth print-identity-token'',
                  Run token_cmd 30, Run email_cmd 10,
                  Log DEBUG ''Successfully obtained identity token without audience'']\<rparr>)"
proof -
  have 1: "strip ''abc.def'' = ''abc.def''" by code_simp
  have 2: "strip ''user@example.com'' = ''user@example.com''" by code_simp
  have 3: "join '' '' token_cmd = ''gcloud auth print-identity-token''" by code_simp
  show ?thesis
    using assms 1 2 3
    by (simp add: authenticate_def authenticate_body_def get_identity_token_without_audience_def
          get_identity_token_body_def subprocess_run_def Let_def log_def emit_def)
qed

theorem authenticate_external_tool_success_witness:
  "fst (authenticate
          (env_tool (Inr \<lparr>returncode = 0, stdout = ''abc.def'', stderr = []\<rparr>)
             (Inr \<lparr>returncode = 0, stdout = ''user@example.com'', stderr = []\<rparr>)) False fresh) =
     Inr (PyStr ''abc.def'', PyStr ''user@example.com'')
   \<and> trace (snd (authenticate
          (env_tool (Inr \<lparr>returncode = 0, stdout = ''abc.def'', stderr = []\<rparr>)
             (Inr \<lparr>returncode = 0, stdout = ''user@example.com'', stderr = []\<rparr>)) False fresh)) =
     [Log DEBUG ''Running command: gcloud auth print-identity-token'',
      Run token_cmd 30, Run email_cmd 10,
      Log DEBUG ''Successfully obtained identity token without audience'']
   \<and> credentials (snd (authenticate
          (env_tool (Inr \<lparr>returncode = 0, stdout = ''abc.def'', stderr = []\<rparr>)
             (Inr \<lparr>returncode = 0, stdout = ''user@example.com'', stderr = []\<rparr>)) False fresh)) = None"
proof -
  note run = run_env_tool(1) and lookup = run_env_tool(2)
  show ?thesis
    by (simp add: authenticate_external_tool_success [OF run lookup] fresh_def GoogleCloudAuth_def)
qed

text \<open>
  Claim C8. When the token call fails with a not-logged-in error, the credential file
  does not exist, no client-secrets file is available (none configured, or the
  configured path does not exist) and the ambient credentials raise
  \<^verbatim>\<open>DefaultCredentialsError\<close>, \<^verbatim>\<open>authenticate\<close> raises \<^verbatim>\<open>CredentialsNotFoundError\<close>
  itself, neither wrapped nor replaced by a general \<^verbatim>\<open>AuthenticationError\<close>.
\<close>

theorem authenticate_no_credential_source:
  assumes "run e token_cmd 30 = Inr result"
    and "returncode result \<noteq> 0" and "not_logged_in (error_msg_of result)"
    and "files s (credentials_path s) = None"
    and "client_secrets_path s = None \<or> (\<exists>p. client_secrets_path s = Some p \<and> files s p = None)"
    and "google_auth_default e REQUIRED_SCOPES = Inl x" and "cls x = DefaultCredentialsError"
  shows "fst (authenticate e force_reauth s) = Inl (Exc CredentialsNotFoundError no_credentials_msg None)"
proof -
  obtain t where t: "snd (get_identity_token_without_audience e s) = s\<lparr>trace := t\<rparr>"
    using get_identity_token_frame by blast
  have f: "fst (get_identity_token_without_audience e s) =
      Inl (Exc AuthenticationError (''Failed to get identity token: '' @ not_authenticated_msg)
             (Some (Exc AuthenticationError not_authenticated_msg None)))"
    using get_identity_token_classified [OF assms(1), of s] assms(2,3) by (simp add: Let_def)
  have g: "get_identity_token_without_audience e s =
      (Inl (Exc AuthenticationError (''Failed to get identity token: '' @ not_authenticated_msg)
             (Some (Exc AuthenticationError not_authenticated_msg None))), s\<lparr>trace := t\<rparr>)"
    using t f by (metis prod.collapse)
  have d: "isinstance x [DefaultCredentialsError]"
    using assms(7) by (simp add: isinstance_def)
  show ?thesis
    using assms(4,5,6) d
    by (auto simp add: authenticate_def authenticate_body_def g oauth_fallback_def
          obtain_credentials_def load_stored_credentials_def perform_oauth_flow_def
          ambient_credentials_def Let_def log_def emit_def)
qed

theorem authenticate_no_credential_source_witness:
  "fst (authenticate (env_tool (Inr not_logged_in_result) (Inl lookup_timeout)) False fresh) =
     Inl (Exc CredentialsNotFoundError no_credentials_msg None)"
proof -
  let ?e = "env_tool (Inr not_logged_in_result) (Inl lookup_timeout)"
  have 1: "returncode not_logged_in_result \<noteq> 0" "not_logged_in (error_msg_of not_logged_in_result)"
    by code_simp+
  have 2: "files fresh (credentials_path fresh) = None"
    by (simp add: fresh_def GoogleCloudAuth_def)
  have 3: "client_secrets_path fresh = None \<or>
           (\<exists>p. client_secrets_path fresh = Some p \<and> files fresh p = None)"
    by (simp add: fresh_def GoogleCloudAuth_def)
  have 4: "google_auth_default ?e REQUIRED_SCOPES =
             Inl (Exc DefaultCredentialsError ''Your default credentials were not found.'' None)"
    by (simp add: env_tool_def ref_env_def)
  show ?thesis
    by (rule authenticate_no_credential_source [OF run_env_tool(1) 1 2 3 4]) simp
qed

end
